theory Spec2Isabelle
  imports Main "HOL-Library.Word"
begin

unbundle bit_operations_syntax

section \<open>The SX1301 concentrator driver (drivers/net/lora/sx1301.c)\<close>

text \<open>
  The driver talks to the concentrator over one SPI device. Everything it does to the
  outside world is a call into the kernel: an SPI transfer, a GPIO write, a sleep, a log
  line. The model records each such call, with the answer the kernel gave, in the order
  the calls are made. The answers of the SPI core are a parameter (\<open>spi_bus\<close>): a
  function of everything that happened so far and of the bytes sent, so that any
  deterministic device and any pattern of transport failures is covered.
\<close>

subsection \<open>Data\<close>

type_synonym u8 = "8 word"

text \<open>Errno values of the kernel headers (include/uapi/asm-generic/errno-base.h).\<close>

definition ENXIO :: int where "ENXIO = 6"
definition ENOMEM :: int where "ENOMEM = 12"
definition EINVAL :: int where "EINVAL = 22"

text \<open>The register map, lines 22 to 41 and 96 to 99.\<close>

definition REG_PAGE_RESET :: u8 where "REG_PAGE_RESET = 0"
definition REG_VERSION :: u8 where "REG_VERSION = 1"
definition REG_2_SPI_RADIO_A_DATA :: u8 where "REG_2_SPI_RADIO_A_DATA = 33"
definition REG_2_SPI_RADIO_B_DATA :: u8 where "REG_2_SPI_RADIO_B_DATA = 38"

definition REG_PAGE_RESET_SOFT_RESET :: u8 where "REG_PAGE_RESET_SOFT_RESET = push_bit 7 1"
definition REG_16_GLOBAL_EN :: u8 where "REG_16_GLOBAL_EN = push_bit 3 1"
definition REG_17_CLK32M_EN :: u8 where "REG_17_CLK32M_EN = push_bit 0 1"
definition REG_2_43_RADIO_A_EN :: u8 where "REG_2_43_RADIO_A_EN = push_bit 0 1"
definition REG_2_43_RADIO_B_EN :: u8 where "REG_2_43_RADIO_B_EN = push_bit 1 1"
definition REG_2_43_RADIO_RST :: u8 where "REG_2_43_RADIO_RST = push_bit 2 1"

definition REG_RADIO_X_DATA :: u8 where "REG_RADIO_X_DATA = 0"
definition REG_RADIO_X_DATA_READBACK :: u8 where "REG_RADIO_X_DATA_READBACK = 1"
definition REG_RADIO_X_ADDR :: u8 where "REG_RADIO_X_ADDR = 2"
definition REG_RADIO_X_CS :: u8 where "REG_RADIO_X_CS = 4"

text \<open>
  \<open>struct spi_sx1301\<close>: the descriptor of one radio's register block. The field
  \<open>parent\<close> always points to the one concentrator SPI device and is left out.
\<close>

record spi_sx1301 =
  page :: u8
  regs :: u8

text \<open>
  What the driver does to the outside, as it appears to the kernel:
  \<open>spi_write_then_read\<close> of one byte out and one byte in (with its return code and the
  byte received), \<open>spi_write\<close> of two bytes (with its return code), and the calls of
  probe that have no answer the driver looks at.
\<close>

datatype event =
    SpiWriteThenRead u8 int u8
  | SpiWrite u8 u8 int
  | GpiodSetValue int
  | Msleep nat
  | SpiSetup
  | RegisterController spi_sx1301
  | SpiControllerPut spi_sx1301
  | FreeLoradev

record spi_bus =
  spi_write_then_read :: "event list \<Rightarrow> u8 \<Rightarrow> int \<times> u8"
  spi_write :: "event list \<Rightarrow> u8 \<Rightarrow> u8 \<Rightarrow> int"

text \<open>
  Log lines: \<open>dev_dbg\<close>, \<open>dev_info\<close>, \<open>dev_warn\<close> and \<open>dev_err\<close>, each with its
  format string and its numeric arguments (a \<open>%s\<close> argument that is "1" or "0" is
  recorded as 1 or 0).
\<close>

datatype log_level = Dbg | Info | Warn | Err

type_synonym log_entry = "log_level \<times> string \<times> int list"

text \<open>
  The driver's state. Two different objects are read as a \<open>struct sx1301_priv\<close>:
  \<^item> \<open>sx1301_page_switch\<close> takes \<open>spi_get_drvdata(spi)\<close> (line 73), and probe makes
    that the \<open>net_device\<close> itself (\<open>spi_set_drvdata(spi, netdev)\<close>, line 255).
    \<open>cur_page\<close> is the byte that \<open>sx1301_page_switch\<close> compares and stores: the byte
    of the \<open>net_device\<close> that lies where \<open>cur_page\<close> lies in a
    \<open>struct sx1301_priv\<close>. Nothing in the source gives that byte a value before the
    first page switch.
  \<^item> probe takes \<open>netdev_priv(netdev)\<close> (line 251), the private area behind the
    \<open>net_device\<close>. \<open>netdev_priv_cur_page\<close>, \<open>radio_a_ctrl\<close> and
    \<open>radio_b_ctrl\<close> are its fields (a controller is identified with the descriptor
    in its driver data); only probe writes them.

  Then the events so far (oldest first) and the log.
\<close>

record sx1301_priv =
  cur_page :: u8
  netdev_priv_cur_page :: u8
  radio_a_ctrl :: "spi_sx1301 option"
  radio_b_ctrl :: "spi_sx1301 option"
  trace :: "event list"
  klog :: "log_entry list"

definition dev_log :: "log_level \<Rightarrow> string \<Rightarrow> int list \<Rightarrow> sx1301_priv \<Rightarrow> sx1301_priv" where
  "dev_log lv fmt args s = s\<lparr>klog := klog s @ [(lv, fmt, args)]\<rparr>"

definition emit :: "event \<Rightarrow> sx1301_priv \<Rightarrow> sx1301_priv" where
  "emit e s = s\<lparr>trace := trace s @ [e]\<rparr>"

text \<open>The events a call added: those of the state after it that the state before lacks.\<close>

definition emitted :: "sx1301_priv \<Rightarrow> sx1301_priv \<Rightarrow> event list" where
  "emitted s s' = drop (length (trace s)) (trace s')"

subsection \<open>Register Channel: \<open>sx1301_read\<close> and \<open>sx1301_write\<close> (lines 56 to 69)\<close>

text \<open>
  \<open>sx1301_read\<close> returns the code of \<open>spi_write_then_read\<close> and the byte received.
  The SPI core stores into \<open>*val\<close> only when it returns 0, so each caller below uses
  the byte only then.
\<close>

definition sx1301_read :: "spi_bus \<Rightarrow> u8 \<Rightarrow> sx1301_priv \<Rightarrow> int \<times> u8 \<times> sx1301_priv" where
  "sx1301_read bus reg s =
     (let addr = reg AND 0x7f;
          (ret, val) = spi_write_then_read bus (trace s) addr
      in (ret, val, emit (SpiWriteThenRead addr ret val) s))"

definition sx1301_write :: "spi_bus \<Rightarrow> u8 \<Rightarrow> u8 \<Rightarrow> sx1301_priv \<Rightarrow> int \<times> sx1301_priv" where
  "sx1301_write bus reg val s =
     (let buf0 = reg OR push_bit 7 1;
          buf1 = val;
          ret = spi_write bus (trace s) buf0 buf1
      in (ret, emit (SpiWrite buf0 buf1 ret) s))"

subsection \<open>Paged Register Store: \<open>sx1301_page_switch\<close>, \<open>sx1301_soft_reset\<close> (lines 71 to 94)\<close>

definition sx1301_page_switch :: "spi_bus \<Rightarrow> u8 \<Rightarrow> sx1301_priv \<Rightarrow> int \<times> sx1301_priv" where
  "sx1301_page_switch bus pg s =
     (if cur_page s = pg then (0, s)
      else
        let s1 = dev_log Dbg ''switching to page %u'' [uint pg] s;
            (ret, s2) = sx1301_write bus REG_PAGE_RESET (pg AND 0x3) s1
        in if ret \<noteq> 0
           then (ret, dev_log Err ''switching to page %u failed'' [uint pg] s2)
           else (0, s2\<lparr>cur_page := pg\<rparr>))"

definition sx1301_soft_reset :: "spi_bus \<Rightarrow> sx1301_priv \<Rightarrow> int \<times> sx1301_priv" where
  "sx1301_soft_reset bus s = sx1301_write bus REG_PAGE_RESET REG_PAGE_RESET_SOFT_RESET s"

text \<open>
  A sequence of \<open>sx1301_page_switch\<close> calls, one per requested page: for each call its
  return code and the events it added.
\<close>

fun page_switches :: "spi_bus \<Rightarrow> u8 list \<Rightarrow> sx1301_priv \<Rightarrow> (u8 \<times> int \<times> event list) list \<times> sx1301_priv" where
  "page_switches bus [] s = ([], s)"
| "page_switches bus (pg # pgs) s =
     (let (ret, s1) = sx1301_page_switch bus pg s;
          (rest, s2) = page_switches bus pgs s1
      in ((pg, ret, emitted s s1) # rest, s2))"

text \<open>
  What the specification says of such a sequence, in its own words: \<open>conf\<close> is the page
  confirmed by the most recent successful switch (at first, the cached page); a call
  for the confirmed page succeeds with no bus traffic, any other call issues exactly one
  write of \<open>target AND 3\<close> to the page-select register, address 0 (first byte on the
  wire: \<open>0x80\<close>, the address with the write bit).
\<close>

fun page_writes_as_specified :: "u8 \<Rightarrow> (u8 \<times> int \<times> event list) list \<Rightarrow> bool" where
  "page_writes_as_specified conf [] = True"
| "page_writes_as_specified conf ((target, ret, evs) # calls) =
     ((if target = conf then ret = 0 \<and> evs = []
       else evs = [SpiWrite 0x80 (target AND 0x3) ret])
      \<and> page_writes_as_specified (if ret = 0 then target else conf) calls)"

subsection \<open>Virtual Bus Controller (lines 101 to 210)\<close>

definition sx1301_radio_set_cs :: "spi_bus \<Rightarrow> spi_sx1301 \<Rightarrow> bool \<Rightarrow> sx1301_priv \<Rightarrow> int \<times> sx1301_priv" where
  "sx1301_radio_set_cs bus ssx enable s =
     (let s0 = dev_log Dbg ''setting CS to %s'' [if enable then 1 else 0] s;
          (ret, s1) = sx1301_page_switch bus (page ssx) s0
      in if ret \<noteq> 0
         then (ret, dev_log Warn ''failed to switch page for CS (%d)'' [ret] s1)
         else
           let (ret, val, s2) = sx1301_read bus (regs ssx + REG_RADIO_X_CS) s1;
               (cs, s3) = (if ret \<noteq> 0
                           then (0, dev_log Warn ''failed to read CS (%d)'' [ret] s2)
                           else (val, s2));
               cs = (if enable then cs OR push_bit 0 1 else cs AND NOT (push_bit 0 1));
               (ret, s4) = sx1301_write bus (regs ssx + REG_RADIO_X_CS) cs s3;
               s5 = (if ret \<noteq> 0
                     then dev_log Warn ''failed to write CS (%d)'' [ret] s4
                     else s4)
           in (0, s5))"

definition sx1301_radio_spi_set_cs :: "spi_bus \<Rightarrow> spi_sx1301 \<Rightarrow> bool \<Rightarrow> sx1301_priv \<Rightarrow> sx1301_priv" where
  "sx1301_radio_spi_set_cs bus ssx enable s =
     (let s0 = dev_log Dbg ''setting SPI CS to %s'' [if enable then 1 else 0] s
      in if enable then s0
         else
           let (ret, s1) = sx1301_radio_set_cs bus ssx enable s0
           in if ret \<noteq> 0
              then dev_log Warn ''failed to write CS (%d)'' [ret] s1
              else s1)"

text \<open>
  \<open>struct spi_transfer\<close>: the length and the two optional buffers (\<open>None\<close> is the
  null pointer). The SPI core hands the driver buffers of \<open>len\<close> bytes, which is what
  \<open>xfr_wf\<close> says; the driver reads \<open>tx_buf[0]\<close>, \<open>tx_buf[1]\<close> and writes
  \<open>rx_buf[len - 1]\<close> on that understanding.
\<close>

record spi_transfer =
  len :: nat
  tx_buf :: "u8 list option"
  rx_buf :: "u8 list option"

definition xfr_wf :: "spi_transfer \<Rightarrow> bool" where
  "xfr_wf xfr =
     ((case tx_buf xfr of None \<Rightarrow> True | Some tx \<Rightarrow> length tx = len xfr) \<and>
      (case rx_buf xfr of None \<Rightarrow> True | Some rx \<Rightarrow> length rx = len xfr))"

text \<open>
  \<open>sx1301_radio_spi_transfer_one\<close> returns its code, the receive buffer as the call
  leaves it, and the state. A failed read leaves the receive buffer as it was, since
  \<open>spi_write_then_read\<close> copies into its destination only when it returns 0.
\<close>

definition sx1301_radio_spi_transfer_one ::
    "spi_bus \<Rightarrow> spi_sx1301 \<Rightarrow> spi_transfer \<Rightarrow> sx1301_priv \<Rightarrow> int \<times> u8 list option \<times> sx1301_priv" where
  "sx1301_radio_spi_transfer_one bus ssx xfr s =
     (if len xfr = 0 \<or> len xfr > 3 then (- EINVAL, rx_buf xfr, s)
      else
        let s0 = dev_log Dbg ''transferring one (%u)'' [int (len xfr)] s;
            (ret, s1) = sx1301_page_switch bus (page ssx) s0
        in if ret \<noteq> 0
           then (ret, rx_buf xfr, dev_log Err ''failed to switch page for transfer (%d)'' [ret] s1)
           else
             let (ret, s2) =
                   (case tx_buf xfr of
                      None \<Rightarrow> (0, s1)
                    | Some tx \<Rightarrow>
                        let (ret, t1) = sx1301_write bus (regs ssx + REG_RADIO_X_ADDR) (tx ! 0) s1
                        in if ret \<noteq> 0
                           then (ret, dev_log Err ''SPI radio address write failed'' [] t1)
                           else
                             let (ret, t2) = sx1301_write bus (regs ssx + REG_RADIO_X_DATA)
                                               (if len xfr \<ge> 2 then tx ! 1 else 0) t1
                             in if ret \<noteq> 0
                                then (ret, dev_log Err ''SPI radio data write failed'' [] t2)
                                else
                                  let (ret, t3) = sx1301_radio_set_cs bus ssx True t2
                                  in if ret \<noteq> 0
                                     then (ret, dev_log Err ''SPI radio CS set failed'' [] t3)
                                     else
                                       let (ret, t4) = sx1301_radio_set_cs bus ssx False t3
                                       in if ret \<noteq> 0
                                          then (ret, dev_log Err ''SPI radio CS unset failed'' [] t4)
                                          else (0, t4))
             in if ret \<noteq> 0 then (ret, rx_buf xfr, s2)
                else
                  (case rx_buf xfr of
                     None \<Rightarrow> (0, None, s2)
                   | Some rx \<Rightarrow>
                       let (ret, val, s3) = sx1301_read bus (regs ssx + REG_RADIO_X_DATA_READBACK) s2
                       in if ret \<noteq> 0
                          then (ret, Some rx, dev_log Err ''SPI radio data read failed'' [] s3)
                          else (0, Some (rx[len xfr - 1 := val]), s3)))"

text \<open>The two descriptors that probe gives the radio controllers (lines 361 to 364, 385 to 388).\<close>

definition radio_a :: spi_sx1301 where
  "radio_a = \<lparr>page = 2, regs = REG_2_SPI_RADIO_A_DATA\<rparr>"

definition radio_b :: spi_sx1301 where
  "radio_b = \<lparr>page = 2, regs = REG_2_SPI_RADIO_B_DATA\<rparr>"

text \<open>The first byte on the wire of a write to, and of a read of, a register of a block.\<close>

definition wire_write_addr :: "spi_sx1301 \<Rightarrow> u8 \<Rightarrow> u8" where
  "wire_write_addr ssx r = (regs ssx + r) OR push_bit 7 1"

definition wire_read_addr :: "spi_sx1301 \<Rightarrow> u8 \<Rightarrow> u8" where
  "wire_read_addr ssx r = (regs ssx + r) AND 0x7f"

text \<open>
  An event asserts the chip-select of a block when it writes a value with bit 0 set to
  the block's chip-select register, and deasserts it when it writes one with bit 0 clear.
\<close>

fun is_cs_assert :: "spi_sx1301 \<Rightarrow> event \<Rightarrow> bool" where
  "is_cs_assert ssx (SpiWrite a v r) = (a = wire_write_addr ssx REG_RADIO_X_CS \<and> v AND 1 = 1)"
| "is_cs_assert ssx _ = False"

fun is_cs_deassert :: "spi_sx1301 \<Rightarrow> event \<Rightarrow> bool" where
  "is_cs_deassert ssx (SpiWrite a v r) = (a = wire_write_addr ssx REG_RADIO_X_CS \<and> v AND 1 = 0)"
| "is_cs_deassert ssx _ = False"

fun is_cs_read :: "spi_sx1301 \<Rightarrow> event \<Rightarrow> bool" where
  "is_cs_read ssx (SpiWriteThenRead a r v) = (a = wire_read_addr ssx REG_RADIO_X_CS)"
| "is_cs_read ssx _ = False"

fun is_readback_read :: "spi_sx1301 \<Rightarrow> event \<Rightarrow> bool" where
  "is_readback_read ssx (SpiWriteThenRead a r v) = (a = wire_read_addr ssx REG_RADIO_X_DATA_READBACK)"
| "is_readback_read ssx _ = False"

text \<open>
  One chip-select step, as a list of events: a read of the block's chip-select register
  and then a write to it of the value read (0 if the read failed) with bit 0 set
  (\<open>enable\<close>) or cleared. Neither return code is constrained.
\<close>

definition cs_step_ok :: "spi_sx1301 \<Rightarrow> bool \<Rightarrow> event list \<Rightarrow> bool" where
  "cs_step_ok ssx enable evs =
     (case evs of
        [SpiWriteThenRead a r v, SpiWrite b w q] \<Rightarrow>
          a = wire_read_addr ssx REG_RADIO_X_CS \<and>
          b = wire_write_addr ssx REG_RADIO_X_CS \<and>
          w = (if enable then (if r \<noteq> 0 then 0 else v) OR 1
               else (if r \<noteq> 0 then 0 else v) AND NOT 1)
      | _ \<Rightarrow> False)"

text \<open>
  The incoming phase, as a list of events: none without a receive buffer; with one,
  a single read of the data-readback register, whose return code is the transaction's
  and whose byte, when the read succeeded, is stored at position \<open>len - 1\<close>.
\<close>

definition incoming_phase_ok ::
    "spi_sx1301 \<Rightarrow> spi_transfer \<Rightarrow> int \<Rightarrow> u8 list option \<Rightarrow> event list \<Rightarrow> bool" where
  "incoming_phase_ok ssx xfr ret rxo evs =
     (case rx_buf xfr of
        None \<Rightarrow> evs = [] \<and> ret = 0 \<and> rxo = None
      | Some rx \<Rightarrow>
          (case evs of
             [SpiWriteThenRead a r v] \<Rightarrow>
               a = wire_read_addr ssx REG_RADIO_X_DATA_READBACK \<and> ret = r \<and>
               rxo = Some (if r \<noteq> 0 then rx else rx[len xfr - 1 := v])
           | _ \<Rightarrow> False))"

text \<open>
  The events of a transaction with outgoing bytes \<open>tx\<close>, after its page switch: the
  write of byte 0 to the address register; if that succeeded, the write of byte 1 (0 for
  a length of 1) to the data register; if that succeeded, the chip-select step with bit
  0 set, the chip-select step with bit 0 cleared, and only then the incoming phase. A
  failed address or data write ends the transaction with its code and the receive
  buffer untouched; the chip-select steps end nothing.
\<close>

definition outgoing_phase_ok ::
    "spi_sx1301 \<Rightarrow> spi_transfer \<Rightarrow> u8 list \<Rightarrow> int \<Rightarrow> u8 list option \<Rightarrow> event list \<Rightarrow> bool" where
  "outgoing_phase_ok ssx xfr tx ret rxo evs =
     (case evs of
        SpiWrite a x r # rest \<Rightarrow>
          a = wire_write_addr ssx REG_RADIO_X_ADDR \<and> x = tx ! 0 \<and>
          (if r \<noteq> 0 then rest = [] \<and> ret = r \<and> rxo = rx_buf xfr
           else
             (case rest of
                SpiWrite a' x' r' # rest' \<Rightarrow>
                  a' = wire_write_addr ssx REG_RADIO_X_DATA \<and>
                  x' = (if len xfr \<ge> 2 then tx ! 1 else 0) \<and>
                  (if r' \<noteq> 0 then rest' = [] \<and> ret = r' \<and> rxo = rx_buf xfr
                   else cs_step_ok ssx True (take 2 rest') \<and>
                        cs_step_ok ssx False (take 2 (drop 2 rest')) \<and>
                        incoming_phase_ok ssx xfr ret rxo (drop 4 rest'))
              | _ \<Rightarrow> False))
      | _ \<Rightarrow> False)"

text \<open>
  The readback of a transaction, given the receive buffer \<open>rx\<close> before the call:
  among the events exactly one is a read of the data-readback register, and it is the
  last event; its return code is the transaction's; the buffer afterwards is \<open>rx\<close>
  with the byte read at position \<open>len - 1\<close> when the read succeeded, and \<open>rx\<close>
  itself when it failed.
\<close>

definition readback_exactly_once ::
    "spi_sx1301 \<Rightarrow> spi_transfer \<Rightarrow> u8 list \<Rightarrow> int \<Rightarrow> u8 list option \<Rightarrow> event list \<Rightarrow> bool" where
  "readback_exactly_once ssx xfr rx ret rxo evs =
     (evs \<noteq> [] \<and> filter (is_readback_read ssx) evs = [last evs] \<and>
      (case last evs of
         SpiWriteThenRead a r v \<Rightarrow>
           ret = r \<and> rxo = Some (if r \<noteq> 0 then rx else rx[len xfr - 1 := v])
       | _ \<Rightarrow> False))"

text \<open>
  Every event of the list that asserts the chip-select is followed at once by a read of
  the chip-select register and a write that deasserts it.
\<close>

fun cs_asserts_bracketed :: "spi_sx1301 \<Rightarrow> event list \<Rightarrow> bool" where
  "cs_asserts_bracketed ssx [] = True"
| "cs_asserts_bracketed ssx (e # es) =
     ((if is_cs_assert ssx e
       then (case es of rd # wr # _ \<Rightarrow> is_cs_read ssx rd \<and> is_cs_deassert ssx wr | _ \<Rightarrow> False)
       else True)
      \<and> cs_asserts_bracketed ssx es)"

subsection \<open>Concentrator bring-up: \<open>sx1301_probe\<close> (lines 212 to 411)\<close>

text \<open>
  The answers of the kernel services that probe calls and that are not SPI transfers:
  \<open>devm_gpiod_get_optional\<close> (the pointer it returns, as a signed number: a
  descriptor, null, or an error pointer), \<open>alloc_loradev\<close>, and for each radio
  \<open>spi_alloc_master\<close> and \<open>devm_spi_register_controller\<close>.
\<close>

record probe_env =
  devm_gpiod_get_optional :: int
  alloc_loradev_ok :: bool
  radio_a_alloc_ok :: bool
  radio_a_register :: int
  radio_b_alloc_ok :: bool
  radio_b_register :: int

text \<open>
  \<open>IS_ERR\<close> of include/linux/err.h: a pointer is an error pointer when it lies in the
  last \<open>MAX_ERRNO = 4095\<close> addresses, and \<open>PTR_ERR\<close> is then its value as a number.
\<close>

definition IS_ERR :: "int \<Rightarrow> bool" where
  "IS_ERR p = (- 4095 \<le> p \<and> p < 0)"

text \<open>Lines 350 to 411: the two radio controllers and the error labels.\<close>

definition sx1301_probe_radios :: "probe_env \<Rightarrow> sx1301_priv \<Rightarrow> int \<times> sx1301_priv" where
  "sx1301_probe_radios env s =
     (if \<not> radio_a_alloc_ok env then (- ENOMEM, emit FreeLoradev s)
      else
        let s1 = dev_log Info ''registering radio A SPI'' [] (s\<lparr>radio_a_ctrl := Some radio_a\<rparr>);
            ret = radio_a_register env;
            s2 = emit (RegisterController radio_a) s1
        in if ret \<noteq> 0
           then (ret, emit FreeLoradev (emit (SpiControllerPut radio_a)
                        (dev_log Err ''radio A SPI register failed'' [] s2)))
           else
             if \<not> radio_b_alloc_ok env
             then (- ENOMEM, emit FreeLoradev (emit (SpiControllerPut radio_a) s2))
             else
               let s3 = dev_log Info ''registering radio B SPI'' [] (s2\<lparr>radio_b_ctrl := Some radio_b\<rparr>);
                   ret = radio_b_register env;
                   s4 = emit (RegisterController radio_b) s3
               in if ret \<noteq> 0
                  then (ret, emit FreeLoradev (emit (SpiControllerPut radio_a)
                               (emit (SpiControllerPut radio_b)
                                  (dev_log Err ''radio B SPI register failed'' [] s4))))
                  else (0, dev_log Info ''SX1301 module probed'' [] s4))"

text \<open>
  Lines 212 to 348 are one straight run of steps, each of the shape
  \<open>ret = f(...); if (ret) { dev_err(...); return ret; }\<close>. The model follows the run
  from its end to its beginning, one definition per group of lines, each handing over
  to the one for the lines after it; \<open>sx1301_probe\<close> itself comes last.
\<close>

text \<open>Lines 336 to 348: read 43, clear the radio reset bit, write 43.\<close>

definition probe_radio_rst_clear :: "probe_env \<Rightarrow> spi_bus \<Rightarrow> sx1301_priv \<Rightarrow> int \<times> sx1301_priv" where
  "probe_radio_rst_clear env bus s =
     (let (ret, val, s) = sx1301_read bus 43 s
      in if ret \<noteq> 0 then (ret, dev_log Err ''2|43 read failed'' [] s)
         else
           let val = val AND NOT REG_2_43_RADIO_RST;
               (ret, s) = sx1301_write bus 43 val s
           in if ret \<noteq> 0 then (ret, dev_log Err ''2|43 write failed'' [] s)
              else sx1301_probe_radios env s)"

text \<open>Lines 320 to 334: read 43, set the radio reset bit, write 43, sleep 5 ms.\<close>

definition probe_radio_rst_set :: "probe_env \<Rightarrow> spi_bus \<Rightarrow> sx1301_priv \<Rightarrow> int \<times> sx1301_priv" where
  "probe_radio_rst_set env bus s =
     (let (ret, val, s) = sx1301_read bus 43 s
      in if ret \<noteq> 0 then (ret, dev_log Err ''2|43 read failed'' [] s)
         else
           let val = val OR REG_2_43_RADIO_RST;
               (ret, s) = sx1301_write bus 43 val s
           in if ret \<noteq> 0 then (ret, dev_log Err ''2|43 write failed'' [] s)
              else probe_radio_rst_clear env bus (emit (Msleep 5) s))"

text \<open>
  Lines 298 to 318: switch to page 2, read 43, set both radio enable bits, write 43,
  sleep 500 ms.
\<close>

definition probe_radio_enable :: "probe_env \<Rightarrow> spi_bus \<Rightarrow> sx1301_priv \<Rightarrow> int \<times> sx1301_priv" where
  "probe_radio_enable env bus s =
     (let (ret, s) = sx1301_page_switch bus 2 s
      in if ret \<noteq> 0 then (ret, dev_log Err ''page 2 switch failed'' [] s)
         else
           let (ret, val, s) = sx1301_read bus 43 s
           in if ret \<noteq> 0 then (ret, dev_log Err ''2|43 read failed'' [] s)
              else
                let val = val OR (REG_2_43_RADIO_B_EN OR REG_2_43_RADIO_A_EN);
                    (ret, s) = sx1301_write bus 43 val s
                in if ret \<noteq> 0 then (ret, dev_log Err ''2|43 write failed'' [] s)
                   else probe_radio_rst_set env bus (emit (Msleep 500) s))"

text \<open>Lines 284 to 296: read 17, clear the 32 MHz clock enable bit, write 17.\<close>

definition probe_clk32m_disable :: "probe_env \<Rightarrow> spi_bus \<Rightarrow> sx1301_priv \<Rightarrow> int \<times> sx1301_priv" where
  "probe_clk32m_disable env bus s =
     (let (ret, val, s) = sx1301_read bus 17 s
      in if ret \<noteq> 0 then (ret, dev_log Err ''17 read failed'' [] s)
         else
           let val = val AND NOT REG_17_CLK32M_EN;
               (ret, s) = sx1301_write bus 17 val s
           in if ret \<noteq> 0 then (ret, dev_log Err ''17 write failed'' [] s)
              else probe_radio_enable env bus s)"

text \<open>Lines 270 to 282: read 16, clear the global enable bit, write 16.\<close>

definition probe_global_disable :: "probe_env \<Rightarrow> spi_bus \<Rightarrow> sx1301_priv \<Rightarrow> int \<times> sx1301_priv" where
  "probe_global_disable env bus s =
     (let (ret, val, s) = sx1301_read bus 16 s
      in if ret \<noteq> 0 then (ret, dev_log Err ''16 read failed'' [] s)
         else
           let val = val AND NOT REG_16_GLOBAL_EN;
               (ret, s) = sx1301_write bus 16 val s
           in if ret \<noteq> 0 then (ret, dev_log Err ''16 write failed'' [] s)
              else probe_clk32m_disable env bus s)"

text \<open>Lines 258 to 268: write 0 to the page/reset register, then the soft reset.\<close>

definition probe_page_reset :: "probe_env \<Rightarrow> spi_bus \<Rightarrow> sx1301_priv \<Rightarrow> int \<times> sx1301_priv" where
  "probe_page_reset env bus s =
     (let (ret, s) = sx1301_write bus REG_PAGE_RESET 0 s
      in if ret \<noteq> 0 then (ret, dev_log Err ''page/reset write failed'' [] s)
         else
           let (ret, s) = sx1301_soft_reset bus s
           in if ret \<noteq> 0 then (ret, dev_log Err ''soft reset failed'' [] s)
              else probe_global_disable env bus s)"

text \<open>
  Lines 212 to 256: the reset line, the reset pulse, the version check, the allocation
  of the device and the store of \<open>0xff\<close> into \<open>cur_page\<close> of the private area
  (line 253), which is not the byte that \<open>sx1301_page_switch\<close> reads.
\<close>

definition sx1301_probe :: "probe_env \<Rightarrow> spi_bus \<Rightarrow> sx1301_priv \<Rightarrow> int \<times> sx1301_priv" where
  "sx1301_probe env bus s =
     (let rst = devm_gpiod_get_optional env
      in if IS_ERR rst then (rst, s)
         else
           let s = emit (GpiodSetValue 1) s;
               s = emit (Msleep 100) s;
               s = emit (GpiodSetValue 0) s;
               s = emit (Msleep 100) s;
               s = emit SpiSetup s;
               (ret, val, s) = sx1301_read bus REG_VERSION s
           in if ret \<noteq> 0 then (ret, dev_log Err ''version read failed'' [] s)
              else if val \<noteq> 103
              then (- ENXIO, dev_log Err ''unexpected version: %u'' [uint val] s)
              else if \<not> alloc_loradev_ok env then (- ENOMEM, s)
              else probe_page_reset env bus (s\<lparr>netdev_priv_cur_page := 0xff\<rparr>))"

text \<open>
  The read-modify-write steps of probe, in the order of the source: the register, the
  targeted mask, and whether the step sets or clears the mask.
\<close>

definition probe_rmw_steps :: "(u8 \<times> u8 \<times> bool) list" where
  "probe_rmw_steps =
     [(16, REG_16_GLOBAL_EN, False),
      (17, REG_17_CLK32M_EN, False),
      (43, REG_2_43_RADIO_B_EN OR REG_2_43_RADIO_A_EN, True),
      (43, REG_2_43_RADIO_RST, True),
      (43, REG_2_43_RADIO_RST, False)]"

text \<open>
  \<open>rmw_run steps evs\<close> goes through a list of events with the steps still to come and
  answers with the steps left over, or with \<open>None\<close> when the events break the rule:
  \<^item> a read of the version register is no step and is passed over;
  \<^item> any other read must be of the register of the next step; if it failed it is the
    last event; if it succeeded with value \<open>v\<close>, the very next event must be the write
    to the same register of a value that equals \<open>v\<close> on every bit outside the mask
    and has the mask's bits all set or all cleared;
  \<^item> a write that is not the second half of a step must not go to register 16, 17 or 43;
  \<^item> every other event is passed over.
\<close>

fun rmw_run :: "(u8 \<times> u8 \<times> bool) list \<Rightarrow> event list \<Rightarrow> (u8 \<times> u8 \<times> bool) list option" where
  "rmw_run steps [] = Some steps"
| "rmw_run steps (SpiWriteThenRead a r v # evs) =
     (if a = REG_VERSION then rmw_run steps evs
      else
        (case steps of
           [] \<Rightarrow> None
         | (reg, msk, setting) # steps' \<Rightarrow>
             if a \<noteq> reg then None
             else if r \<noteq> 0 then (if evs = [] then Some steps else None)
             else
               (case evs of
                  SpiWrite b w q # evs' \<Rightarrow>
                    if b = (reg OR push_bit 7 1) \<and>
                       w AND NOT msk = v AND NOT msk \<and>
                       w AND msk = (if setting then msk else 0)
                    then rmw_run steps' evs'
                    else None
                | _ \<Rightarrow> None)))"
| "rmw_run steps (SpiWrite b w q # evs) =
     (if b = (16 OR push_bit 7 1) \<or> b = (17 OR push_bit 7 1) \<or> b = (43 OR push_bit 7 1)
      then None
      else rmw_run steps evs)"
| "rmw_run steps (e # evs) = rmw_run steps evs"

subsection \<open>Concrete devices and states, for evaluating the model\<close>

text \<open>
  \<open>stub_bus rd_fail wr_fail v\<close>: reads whose wire address is in \<open>rd_fail\<close> and writes
  whose wire address is in \<open>wr_fail\<close> fail with \<open>-EIO\<close>; every other transfer
  succeeds, and a read delivers \<open>v\<close>.
\<close>

definition stub_bus :: "u8 list \<Rightarrow> u8 list \<Rightarrow> u8 \<Rightarrow> spi_bus" where
  "stub_bus rd_fail wr_fail v =
     \<lparr>spi_write_then_read = (\<lambda>h a. if a \<in> set rd_fail then (- 5, 0) else (0, v)),
      spi_write = (\<lambda>h a x. if a \<in> set wr_fail then - 5 else 0)\<rparr>"

text \<open>
  A device that answers the version register (address 1) with 103 and every other read
  with \<open>v\<close>, and never fails.
\<close>

definition version_bus :: "u8 \<Rightarrow> spi_bus" where
  "version_bus v =
     \<lparr>spi_write_then_read = (\<lambda>h a. if a = 1 then (0, 103) else (0, v)),
      spi_write = (\<lambda>h a x. 0)\<rparr>"

text \<open>A device whose very first transfer fails with \<open>-EIO\<close> and that works from then on.\<close>

definition first_fails_bus :: spi_bus where
  "first_fails_bus =
     \<lparr>spi_write_then_read = (\<lambda>h a. if h = [] then (- 5, 0) else (0, 0)),
      spi_write = (\<lambda>h a x. if h = [] then - 5 else 0)\<rparr>"

text \<open>
  The state in which the byte that \<open>sx1301_page_switch\<close> reads is \<open>pg\<close> and
  nothing is recorded yet.
\<close>

definition fresh :: "u8 \<Rightarrow> sx1301_priv" where
  "fresh pg =
     \<lparr>cur_page = pg, netdev_priv_cur_page = 0, radio_a_ctrl = None, radio_b_ctrl = None,
      trace = [], klog = []\<rparr>"

definition all_ok_env :: probe_env where
  "all_ok_env =
     \<lparr>devm_gpiod_get_optional = 0, alloc_loradev_ok = True,
      radio_a_alloc_ok = True, radio_a_register = 0,
      radio_b_alloc_ok = True, radio_b_register = 0\<rparr>"

section \<open>Properties\<close>

subsection \<open>One call at a time\<close>

lemma dev_log_fields [simp]:
  "trace (dev_log lv fmt args s) = trace s"
  "cur_page (dev_log lv fmt args s) = cur_page s"
  "klog (dev_log lv fmt args s) = klog s @ [(lv, fmt, args)]"
  by (simp_all add: dev_log_def)

lemma emit_fields [simp]:
  "trace (emit e s) = trace s @ [e]"
  "cur_page (emit e s) = cur_page s"
  "klog (emit e s) = klog s"
  by (simp_all add: emit_def)

lemma write_unfold:
  "sx1301_write bus reg val s =
     (spi_write bus (trace s) (reg OR 0x80) val,
      emit (SpiWrite (reg OR 0x80) val (spi_write bus (trace s) (reg OR 0x80) val)) s)"
  by (simp add: sx1301_write_def Let_def)

lemma read_unfold:
  "sx1301_read bus reg s =
     (fst (spi_write_then_read bus (trace s) (reg AND 0x7f)),
      snd (spi_write_then_read bus (trace s) (reg AND 0x7f)),
      emit (SpiWriteThenRead (reg AND 0x7f)
              (fst (spi_write_then_read bus (trace s) (reg AND 0x7f)))
              (snd (spi_write_then_read bus (trace s) (reg AND 0x7f)))) s)"
  by (simp add: sx1301_read_def Let_def split: prod.splits)

lemma write_step:
  "sx1301_write bus reg val s = (ret, s') \<Longrightarrow>
   trace s' = trace s @ [SpiWrite (reg OR 0x80) val ret] \<and> cur_page s' = cur_page s"
  by (auto simp: write_unfold)

lemma read_step:
  "sx1301_read bus reg s = (ret, val, s') \<Longrightarrow>
   trace s' = trace s @ [SpiWriteThenRead (reg AND 0x7f) ret val] \<and> cur_page s' = cur_page s"
  by (auto simp: read_unfold)

text \<open>Setting or clearing the bits of a mask leaves the bits outside the mask alone.\<close>

lemma frame_or: "(v OR m) AND NOT m = v AND NOT (m::u8)"
  by (rule bit_word_eqI) (auto simp: bit_simps)

lemma frame_or2: "(v OR m) AND m = (m::u8)"
  by (rule bit_word_eqI) (auto simp: bit_simps)

lemma frame_and2: "(v AND NOT m) AND m = (0::u8)"
  by (rule bit_word_eqI) (auto simp: bit_simps)

subsection \<open>Page switching\<close>

lemma page_switch_hit: "cur_page s = pg \<Longrightarrow> sx1301_page_switch bus pg s = (0, s)"
  by (simp add: sx1301_page_switch_def)

lemma page_switch_miss:
  "cur_page s \<noteq> pg \<Longrightarrow>
   sx1301_page_switch bus pg s =
     (let ret = spi_write bus (trace s) 0x80 (pg AND 0x3);
          s1 = emit (SpiWrite 0x80 (pg AND 0x3) ret) (dev_log Dbg ''switching to page %u'' [uint pg] s)
      in if ret \<noteq> 0 then (ret, dev_log Err ''switching to page %u failed'' [uint pg] s1)
         else (0, s1\<lparr>cur_page := pg\<rparr>))"
  by (simp add: sx1301_page_switch_def sx1301_write_def REG_PAGE_RESET_def dev_log_def emit_def Let_def)

lemma page_switch_cache:
  "sx1301_page_switch bus pg s = (ret, s1) \<Longrightarrow> cur_page s1 = (if ret = 0 then pg else cur_page s)"
  by (cases "cur_page s = pg")
     (auto simp: page_switch_hit page_switch_miss Let_def dev_log_def emit_def split: if_splits)

lemma page_switch_emitted:
  "sx1301_page_switch bus pg s = (ret, s1) \<Longrightarrow>
   emitted s s1 = (if pg = cur_page s then [] else [SpiWrite 0x80 (pg AND 0x3) ret])"
  by (cases "cur_page s = pg")
     (auto simp: page_switch_hit page_switch_miss Let_def dev_log_def emit_def emitted_def
           split: if_splits)

lemma page_switch_hit_ret:
  "sx1301_page_switch bus pg s = (ret, s1) \<Longrightarrow> pg = cur_page s \<Longrightarrow> ret = 0"
  by (simp add: page_switch_hit)

lemma page_switch_step:
  "sx1301_page_switch bus pg s = (ret, s') \<Longrightarrow>
   trace s' = trace s @ (if cur_page s = pg then [] else [SpiWrite 0x80 (pg AND 0x3) ret])"
  by (auto simp: sx1301_page_switch_def write_unfold REG_PAGE_RESET_def Let_def split: if_splits)

text \<open>
  C1. For every sequence of \<open>sx1301_page_switch\<close> calls, from any state and on any
  device: a call writes to the page-select register if and only if the requested page
  differs from the cached page, which is the page confirmed by the most recent
  successful switch; a call for the cached page returns 0 and adds no event; a call
  that writes sends \<open>target AND 3\<close> to address 0 (wire byte \<open>0x80\<close>), once.
\<close>

theorem page_switch_writes_iff_page_differs:
  "page_writes_as_specified (cur_page s) (fst (page_switches bus pgs s))"
proof (induction pgs arbitrary: s)
  case Nil
  show ?case by simp
next
  case (Cons pg pgs)
  obtain ret s1 where step: "sx1301_page_switch bus pg s = (ret, s1)"
    by (cases "sx1301_page_switch bus pg s")
  obtain rest s2 where tl: "page_switches bus pgs s1 = (rest, s2)"
    by (cases "page_switches bus pgs s1")
  have "page_writes_as_specified (cur_page s1) rest"
    using Cons.IH [of s1] tl by simp
  then show ?case
    using step tl page_switch_cache [OF step] page_switch_emitted [OF step]
      page_switch_hit_ret [OF step]
    by auto
qed

theorem page_switch_writes_iff_page_differs_witness:
  "fst (page_switches first_fails_bus [2, 2, 2, 1] (fresh 0xff)) =
     [(2, - 5, [SpiWrite 0x80 2 (- 5)]), (2, 0, [SpiWrite 0x80 2 0]), (2, 0, []),
      (1, 0, [SpiWrite 0x80 1 0])]
   \<and> page_writes_as_specified 0xff (fst (page_switches first_fails_bus [2, 2, 2, 1] (fresh 0xff)))"
  using page_switch_writes_iff_page_differs [of "fresh 0xff" first_fails_bus "[2, 2, 2, 1]"]
  by (simp add: fresh_def first_fails_bus_def sx1301_page_switch_def sx1301_write_def
        REG_PAGE_RESET_def dev_log_def emit_def emitted_def Let_def)

text \<open>
  C2. When the page-select write of \<open>sx1301_page_switch\<close> fails with code \<open>e\<close>, the
  call returns \<open>e\<close> and leaves the cached page as it was; the next call for the same
  page therefore writes to the page-select register again, and caches the page if that
  write succeeds.
\<close>

theorem page_switch_failure_keeps_cache:
  assumes "cur_page s \<noteq> pg"
    and "spi_write bus (trace s) 0x80 (pg AND 0x3) = e"
    and "e \<noteq> 0"
  shows "fst (sx1301_page_switch bus pg s) = e \<and>
         cur_page (snd (sx1301_page_switch bus pg s)) = cur_page s \<and>
         emitted s (snd (sx1301_page_switch bus pg s)) = [SpiWrite 0x80 (pg AND 0x3) e] \<and>
         (let s1 = snd (sx1301_page_switch bus pg s);
              (ret2, s2) = sx1301_page_switch bus pg s1
          in emitted s1 s2 = [SpiWrite 0x80 (pg AND 0x3) ret2] \<and>
             cur_page s2 = (if ret2 = 0 then pg else cur_page s))"
proof -
  obtain ret s1 where step: "sx1301_page_switch bus pg s = (ret, s1)"
    by (cases "sx1301_page_switch bus pg s")
  have ret: "ret = e"
    using step assms by (simp add: page_switch_miss Let_def)
  have cache: "cur_page s1 = cur_page s"
    using page_switch_cache [OF step] ret assms(3) by simp
  have ev: "emitted s s1 = [SpiWrite 0x80 (pg AND 0x3) e]"
    using page_switch_emitted [OF step] ret assms(1) by auto
  obtain ret2 s2 where again: "sx1301_page_switch bus pg s1 = (ret2, s2)"
    by (cases "sx1301_page_switch bus pg s1")
  have ev2: "emitted s1 s2 = [SpiWrite 0x80 (pg AND 0x3) ret2]"
    using page_switch_emitted [OF again] cache assms(1) by auto
  have cache2: "cur_page s2 = (if ret2 = 0 then pg else cur_page s)"
    using page_switch_cache [OF again] cache by simp
  show ?thesis
    using step ret cache ev again ev2 cache2 by simp
qed

theorem page_switch_failure_keeps_cache_witness:
  "cur_page (fresh 0xff) \<noteq> 2 \<and>
   spi_write first_fails_bus (trace (fresh 0xff)) 0x80 (2 AND 0x3) = - 5 \<and>
   fst (sx1301_page_switch first_fails_bus 2 (fresh 0xff)) = - 5 \<and>
   cur_page (snd (sx1301_page_switch first_fails_bus 2 (fresh 0xff))) = 0xff \<and>
   (let s1 = snd (sx1301_page_switch first_fails_bus 2 (fresh 0xff));
        (ret2, s2) = sx1301_page_switch first_fails_bus 2 s1
    in emitted s1 s2 = [SpiWrite 0x80 2 0] \<and> cur_page s2 = 2)"
  using page_switch_failure_keeps_cache [of "fresh 0xff" 2 first_fails_bus "- 5"]
  by (simp add: fresh_def first_fails_bus_def sx1301_page_switch_def sx1301_write_def
        REG_PAGE_RESET_def dev_log_def emit_def emitted_def Let_def)

subsection \<open>Length check of a transaction\<close>

text \<open>
  C9. A transaction of length 0 or of length above 3 is refused with \<open>-EINVAL\<close>
  (\<open>-22\<close>) before anything else happens: the state, with its record of bus transfers
  and its cached page, is what it was, and the receive buffer is untouched.
\<close>

theorem transfer_one_rejects_bad_length:
  assumes "len xfr = 0 \<or> len xfr > 3"
  shows "sx1301_radio_spi_transfer_one bus ssx xfr s = (- EINVAL, rx_buf xfr, s) \<and>
         emitted s (snd (snd (sx1301_radio_spi_transfer_one bus ssx xfr s))) = [] \<and>
         - EINVAL = - 22"
  using assms by (auto simp: sx1301_radio_spi_transfer_one_def emitted_def EINVAL_def)

theorem transfer_one_rejects_bad_length_witness:
  "sx1301_radio_spi_transfer_one (stub_bus [] [] 0xCC) radio_a
      \<lparr>len = 4, tx_buf = Some [1, 2, 3, 4], rx_buf = Some [0, 0, 0, 0]\<rparr> (fresh 0xff)
     = (- 22, Some [0, 0, 0, 0], fresh 0xff)
   \<and> sx1301_radio_spi_transfer_one (stub_bus [] [] 0xCC) radio_a
      \<lparr>len = 0, tx_buf = Some [], rx_buf = None\<rparr> (fresh 0xff)
     = (- 22, None, fresh 0xff)"
  using transfer_one_rejects_bad_length [of "\<lparr>len = 4, tx_buf = Some [1, 2, 3, 4], rx_buf = Some [0, 0, 0, 0]\<rparr>"
           "stub_bus [] [] 0xCC" radio_a "fresh 0xff"]
        transfer_one_rejects_bad_length [of "\<lparr>len = 0, tx_buf = Some [], rx_buf = None\<rparr>"
           "stub_bus [] [] 0xCC" radio_a "fresh 0xff"]
  by (simp add: EINVAL_def)


subsection \<open>Chip-select\<close>

lemma set_cs_step:
  assumes "cur_page s = page ssx"
    and "sx1301_radio_set_cs bus ssx enable s = (ret, s')"
  shows "ret = 0 \<and> cur_page s' = page ssx \<and>
         (\<exists>r v q. trace s' = trace s @
            [SpiWriteThenRead (wire_read_addr ssx REG_RADIO_X_CS) r v,
             SpiWrite (wire_write_addr ssx REG_RADIO_X_CS)
               (if enable then (if r \<noteq> 0 then 0 else v) OR 1
                else (if r \<noteq> 0 then 0 else v) AND NOT 1) q])"
proof -
  obtain r v s2 where rd:
    "sx1301_read bus (regs ssx + REG_RADIO_X_CS)
       (dev_log Dbg ''setting CS to %s'' [if enable then 1 else 0] s) = (r, v, s2)"
    by (cases "sx1301_read bus (regs ssx + REG_RADIO_X_CS)
       (dev_log Dbg ''setting CS to %s'' [if enable then 1 else 0] s)")
  define cs where "cs = (if enable then (if r \<noteq> 0 then 0 else v) OR 1
                else (if r \<noteq> 0 then 0 else v) AND NOT 1)"
  define s3 where "s3 = (if r \<noteq> 0 then dev_log Warn ''failed to read CS (%d)'' [r] s2 else s2)"
  obtain q s4 where wr: "sx1301_write bus (regs ssx + REG_RADIO_X_CS) cs s3 = (q, s4)"
    by (cases "sx1301_write bus (regs ssx + REG_RADIO_X_CS) cs s3")
  have t3: "trace s3 = trace s2" "cur_page s3 = cur_page s2"
    by (simp_all add: s3_def)
  have res: "sx1301_radio_set_cs bus ssx enable s =
               (0, if q \<noteq> 0 then dev_log Warn ''failed to write CS (%d)'' [q] s4 else s4)"
    using assms(1) rd wr
    by (cases "r = 0"; cases enable;
        simp add: sx1301_radio_set_cs_def page_switch_hit cs_def s3_def)
  show ?thesis
    using assms res read_step [OF rd] write_step [OF wr] t3
    by (auto simp: wire_read_addr_def wire_write_addr_def cs_def)
qed

lemmas xfer_eval =
  sx1301_radio_spi_transfer_one_def sx1301_radio_spi_set_cs_def sx1301_radio_set_cs_def
  sx1301_page_switch_def read_unfold write_unfold
  stub_bus_def version_bus_def first_fails_bus_def fresh_def radio_a_def radio_b_def
  REG_2_SPI_RADIO_A_DATA_def REG_2_SPI_RADIO_B_DATA_def REG_PAGE_RESET_def
  REG_RADIO_X_CS_def REG_RADIO_X_ADDR_def REG_RADIO_X_DATA_def REG_RADIO_X_DATA_READBACK_def
  wire_write_addr_def wire_read_addr_def xfr_wf_def
  emitted_def emit_def dev_log_def Let_def

text \<open>
  C3, as stated, fails in its last part. On radio A with the page selected, let the
  write to the chip-select register fail with \<open>-EIO\<close>: \<open>sx1301_radio_set_cs\<close>
  still returns 0, so the caller is not told.
\<close>

theorem set_cs_swallows_write_failure:
  "emitted (fresh 2) (snd (sx1301_radio_set_cs (stub_bus [] [0xA5] 0) radio_a True (fresh 2))) =
     [SpiWriteThenRead 0x25 0 0, SpiWrite 0xA5 1 (- 5)] \<and>
   fst (sx1301_radio_set_cs (stub_bus [] [0xA5] 0) radio_a True (fresh 2)) = 0"
  by (simp add: xfer_eval)

text \<open>
  C3, amended. In \<open>sx1301_radio_set_cs\<close>, once the page switch has succeeded: the
  chip-select register is read and then written, whatever the read returned; when the
  read failed the value written is computed from 0 (so it is 1 for assert and 0 for
  deassert); and the function returns 0 whatever the write returned. A failed write
  is reported in the log only, as the warning "failed to write CS" with its code.
\<close>

theorem set_cs_read_failure_degrades_write_failure_logged:
  assumes ps: "sx1301_page_switch bus (page ssx)
                 (dev_log Dbg ''setting CS to %s'' [if enable then 1 else 0] s) = (0, s1)"
    and rd: "spi_write_then_read bus (trace s1) (wire_read_addr ssx REG_RADIO_X_CS) = (r, v)"
    and cs: "cs = (if enable then (if r \<noteq> 0 then 0 else v) OR 1
                   else (if r \<noteq> 0 then 0 else v) AND NOT 1)"
    and wr: "spi_write bus (trace s1 @ [SpiWriteThenRead (wire_read_addr ssx REG_RADIO_X_CS) r v])
               (wire_write_addr ssx REG_RADIO_X_CS) cs = w"
  shows "fst (sx1301_radio_set_cs bus ssx enable s) = 0 \<and>
         emitted s1 (snd (sx1301_radio_set_cs bus ssx enable s)) =
           [SpiWriteThenRead (wire_read_addr ssx REG_RADIO_X_CS) r v,
            SpiWrite (wire_write_addr ssx REG_RADIO_X_CS) cs w] \<and>
         (r \<noteq> 0 \<longrightarrow> cs = (if enable then 1 else 0)) \<and>
         (w \<noteq> 0 \<longrightarrow> last (klog (snd (sx1301_radio_set_cs bus ssx enable s)))
                       = (Warn, ''failed to write CS (%d)'', [w]))"
  using assms
  by (cases "r = 0"; cases enable; cases "w = 0";
      simp add: sx1301_radio_set_cs_def read_unfold write_unfold REG_RADIO_X_CS_def
        wire_read_addr_def wire_write_addr_def emitted_def Let_def)

theorem set_cs_read_failure_degrades_write_failure_logged_witness:
  "fst (sx1301_radio_set_cs (stub_bus [0x25] [0xA5] 0x55) radio_a True (fresh 2)) = 0 \<and>
   emitted (fresh 2) (snd (sx1301_radio_set_cs (stub_bus [0x25] [0xA5] 0x55) radio_a True (fresh 2))) =
     [SpiWriteThenRead 0x25 (- 5) 0, SpiWrite 0xA5 1 (- 5)] \<and>
   last (klog (snd (sx1301_radio_set_cs (stub_bus [0x25] [0xA5] 0x55) radio_a True (fresh 2))))
     = (Warn, ''failed to write CS (%d)'', [- 5])"
  using set_cs_read_failure_degrades_write_failure_logged
          [of "stub_bus [0x25] [0xA5] 0x55" radio_a True "fresh 2"
              "dev_log Dbg ''setting CS to %s'' [1] (fresh 2)" "- 5" 0 1 "- 5"]
  by (simp add: xfer_eval)

subsection \<open>The events of a transaction\<close>

lemma transfer_one_shape:
  assumes len: "len xfr \<noteq> 0" "len xfr \<le> 3"
    and ps: "sx1301_page_switch bus (page ssx)
               (dev_log Dbg ''transferring one (%u)'' [int (len xfr)] s) = (0, s1)"
    and res: "sx1301_radio_spi_transfer_one bus ssx xfr s = (ret, rxo, s')"
  shows "\<exists>a d r1 v1 q1 r2 v2 q2 r v.
           trace s' = trace s1 @
             (case tx_buf xfr of
                None \<Rightarrow> []
              | Some tx \<Rightarrow>
                  SpiWrite (wire_write_addr ssx REG_RADIO_X_ADDR) (tx ! 0) a #
                  (if a \<noteq> 0 then []
                   else SpiWrite (wire_write_addr ssx REG_RADIO_X_DATA)
                          (if len xfr \<ge> 2 then tx ! 1 else 0) d #
                        (if d \<noteq> 0 then []
                         else [SpiWriteThenRead (wire_read_addr ssx REG_RADIO_X_CS) r1 v1,
                               SpiWrite (wire_write_addr ssx REG_RADIO_X_CS)
                                 ((if r1 \<noteq> 0 then 0 else v1) OR 1) q1,
                               SpiWriteThenRead (wire_read_addr ssx REG_RADIO_X_CS) r2 v2,
                               SpiWrite (wire_write_addr ssx REG_RADIO_X_CS)
                                 ((if r2 \<noteq> 0 then 0 else v2) AND NOT 1) q2]))) @
             (if (case tx_buf xfr of None \<Rightarrow> False | Some tx \<Rightarrow> a \<noteq> 0 \<or> d \<noteq> 0) then []
              else case rx_buf xfr of
                     None \<Rightarrow> []
                   | Some rx \<Rightarrow> [SpiWriteThenRead (wire_read_addr ssx REG_RADIO_X_DATA_READBACK) r v]) \<and>
           ret = (if (case tx_buf xfr of None \<Rightarrow> False | Some tx \<Rightarrow> a \<noteq> 0) then a
                  else if (case tx_buf xfr of None \<Rightarrow> False | Some tx \<Rightarrow> d \<noteq> 0) then d
                  else case rx_buf xfr of None \<Rightarrow> 0 | Some rx \<Rightarrow> r) \<and>
           rxo = (if (case tx_buf xfr of None \<Rightarrow> False | Some tx \<Rightarrow> a \<noteq> 0 \<or> d \<noteq> 0) then rx_buf xfr
                  else case rx_buf xfr of
                         None \<Rightarrow> None
                       | Some rx \<Rightarrow> Some (if r \<noteq> 0 then rx else rx[len xfr - 1 := v])) \<and>
           (case tx_buf xfr of
              None \<Rightarrow> True
            | Some tx \<Rightarrow>
                a = spi_write bus (trace s1) (wire_write_addr ssx REG_RADIO_X_ADDR) (tx ! 0) \<and>
                (a = 0 \<longrightarrow>
                   d = spi_write bus
                         (trace s1 @ [SpiWrite (wire_write_addr ssx REG_RADIO_X_ADDR) (tx ! 0) 0])
                         (wire_write_addr ssx REG_RADIO_X_DATA)
                         (if len xfr \<ge> 2 then tx ! 1 else 0)))"
    (is "\<exists>a d r1 v1 q1 r2 v2 q2 r v. ?P a d r1 v1 q1 r2 v2 q2 r v")
proof -
  have cp1: "cur_page s1 = page ssx"
    using page_switch_cache [OF ps] by simp
  have len': "\<not> (len xfr = 0 \<or> 3 < len xfr)"
    using len by simp
  note defs = sx1301_radio_spi_transfer_one_def wire_write_addr_def wire_read_addr_def
  show ?thesis
  proof (cases "tx_buf xfr")
    case None
    show ?thesis
    proof (cases "rx_buf xfr")
      case rxN: None
      have "sx1301_radio_spi_transfer_one bus ssx xfr s = (0, None, s1)"
        by (simp add: defs len' ps None rxN)
      with res have "?P 0 0 0 0 0 0 0 0 0 0"
        by (clarsimp simp: None rxN)
      then show ?thesis by blast
    next
      case (Some rx)
      obtain r v s3 where rd: "sx1301_read bus (regs ssx + REG_RADIO_X_DATA_READBACK) s1 = (r, v, s3)"
        by (cases "sx1301_read bus (regs ssx + REG_RADIO_X_DATA_READBACK) s1")
      have "sx1301_radio_spi_transfer_one bus ssx xfr s =
              (if r \<noteq> 0 then (r, Some rx, dev_log Err ''SPI radio data read failed'' [] s3)
               else (0, Some (rx[len xfr - 1 := v]), s3))"
        by (simp add: defs len' ps None Some rd)
      with res read_step [OF rd] have "?P 0 0 0 0 0 0 0 0 r v"
        by (cases "r = 0"; clarsimp simp: None Some wire_read_addr_def)
      then show ?thesis by blast
    qed
  next
    case (Some tx)
    define b1 where "b1 = (if len xfr \<ge> 2 then tx ! 1 else 0)"
    obtain a t1 where wa: "sx1301_write bus (regs ssx + REG_RADIO_X_ADDR) (tx ! 0) s1 = (a, t1)"
      by (cases "sx1301_write bus (regs ssx + REG_RADIO_X_ADDR) (tx ! 0) s1")
    obtain d t2 where wd: "sx1301_write bus (regs ssx + REG_RADIO_X_DATA) b1 t1 = (d, t2)"
      by (cases "sx1301_write bus (regs ssx + REG_RADIO_X_DATA) b1 t1")
    obtain c1 t3 where cs1: "sx1301_radio_set_cs bus ssx True t2 = (c1, t3)"
      by (cases "sx1301_radio_set_cs bus ssx True t2")
    obtain c2 t4 where cs2: "sx1301_radio_set_cs bus ssx False t3 = (c2, t4)"
      by (cases "sx1301_radio_set_cs bus ssx False t3")
    obtain r v s3 where rd: "sx1301_read bus (regs ssx + REG_RADIO_X_DATA_READBACK) t4 = (r, v, s3)"
      by (cases "sx1301_read bus (regs ssx + REG_RADIO_X_DATA_READBACK) t4")
    note ta = write_step [OF wa] and td = write_step [OF wd]
    have cp2: "cur_page t2 = page ssx"
      using cp1 ta td by simp
    from set_cs_step [OF cp2 cs1] obtain r1 v1 q1 where
      k1: "c1 = 0" "cur_page t3 = page ssx"
        "trace t3 = trace t2 @
            [SpiWriteThenRead (wire_read_addr ssx REG_RADIO_X_CS) r1 v1,
             SpiWrite (wire_write_addr ssx REG_RADIO_X_CS) ((if r1 \<noteq> 0 then 0 else v1) OR 1) q1]"
      by auto
    from set_cs_step [OF k1(2) cs2] obtain r2 v2 q2 where
      k2: "c2 = 0"
        "trace t4 = trace t3 @
            [SpiWriteThenRead (wire_read_addr ssx REG_RADIO_X_CS) r2 v2,
             SpiWrite (wire_write_addr ssx REG_RADIO_X_CS) ((if r2 \<noteq> 0 then 0 else v2) AND NOT 1) q2]"
      by auto
    note tr = read_step [OF rd]
    have wd': "sx1301_write bus (regs ssx + REG_RADIO_X_DATA) (if 2 \<le> len xfr then tx ! 1 else 0) t1 = (d, t2)"
      using wd by (simp add: b1_def)
    have E: "sx1301_radio_spi_transfer_one bus ssx xfr s =
               (if a \<noteq> 0 then (a, rx_buf xfr, dev_log Err ''SPI radio address write failed'' [] t1)
                else if d \<noteq> 0 then (d, rx_buf xfr, dev_log Err ''SPI radio data write failed'' [] t2)
                else case rx_buf xfr of
                       None \<Rightarrow> (0, None, t4)
                     | Some rx \<Rightarrow>
                         if r \<noteq> 0 then (r, Some rx, dev_log Err ''SPI radio data read failed'' [] s3)
                         else (0, Some (rx[len xfr - 1 := v]), s3))"
      by (cases "a = 0"; cases "d = 0"; cases "rx_buf xfr";
          simp add: sx1301_radio_spi_transfer_one_def len' ps Some wa wd' cs1 cs2 rd k1(1) k2(1))
    have ret_eq: "ret = (if a \<noteq> 0 then a else if d \<noteq> 0 then d
                         else case rx_buf xfr of None \<Rightarrow> 0 | Some rx \<Rightarrow> r)"
      using res E by (auto split: option.splits if_splits)
    have rxo_eq: "rxo = (if a \<noteq> 0 \<or> d \<noteq> 0 then rx_buf xfr
                         else case rx_buf xfr of
                                None \<Rightarrow> None
                              | Some rx \<Rightarrow> Some (if r \<noteq> 0 then rx else rx[len xfr - 1 := v]))"
      using res E by (auto split: option.splits if_splits)
    have tr_eq: "trace s' = (if a \<noteq> 0 then trace t1 else if d \<noteq> 0 then trace t2
                             else case rx_buf xfr of None \<Rightarrow> trace t4 | Some rx \<Rightarrow> trace s3)"
      using res E by (auto split: option.splits if_splits)
    have aeq: "spi_write bus (trace s1) (regs ssx + REG_RADIO_X_ADDR OR 0x80) (tx ! 0) = a"
      using wa by (simp add: write_unfold)
    have deq: "a = 0 \<Longrightarrow>
               spi_write bus (trace s1 @ [SpiWrite (regs ssx + REG_RADIO_X_ADDR OR 0x80) (tx ! 0) 0])
                 (regs ssx + REG_RADIO_X_DATA OR 0x80) (if 2 \<le> len xfr then tx ! 1 else 0) = d"
      using wd' ta by (simp add: write_unfold)
    have "?P a d r1 v1 q1 r2 v2 q2 r v"
      unfolding ret_eq rxo_eq tr_eq
      using ta td k1(3) k2(2) tr aeq deq
      by (simp add: Some wire_write_addr_def wire_read_addr_def b1_def split: option.split)
    then show ?thesis by blast
  qed
qed

lemma transfer_one_switch_failed:
  assumes "len xfr \<noteq> 0" and "len xfr \<le> 3"
    and ps: "sx1301_page_switch bus (page ssx)
               (dev_log Dbg ''transferring one (%u)'' [int (len xfr)] s) = (p, s1)"
    and "p \<noteq> 0"
  shows "sx1301_radio_spi_transfer_one bus ssx xfr s =
           (p, rx_buf xfr, dev_log Err ''failed to switch page for transfer (%d)'' [p] s1) \<and>
         trace s1 = trace s @ [SpiWrite 0x80 (page ssx AND 0x3) p]"
proof -
  have "cur_page s \<noteq> page ssx"
    using ps assms(4) by (auto simp: page_switch_hit)
  then show ?thesis
    using assms page_switch_step [OF ps]
    by (simp add: sx1301_radio_spi_transfer_one_def)
qed

text \<open>
  C6, as stated, fails where it says that the first failing step ends the transaction:
  a chip-select step that fails does not. On radio A, let both writes to the
  chip-select register fail with \<open>-EIO\<close>: the deassert step still runs after the
  failed assert, and the transaction returns 0.
\<close>

theorem transfer_one_continues_after_failed_cs_write:
  "emitted (fresh 2)
     (snd (snd (sx1301_radio_spi_transfer_one (stub_bus [] [0xA5] 0) radio_a
        \<lparr>len = 2, tx_buf = Some [0xAA, 0xBB], rx_buf = None\<rparr> (fresh 2)))) =
     [SpiWrite 0xA3 0xAA 0, SpiWrite 0xA1 0xBB 0,
      SpiWriteThenRead 0x25 0 0, SpiWrite 0xA5 1 (- 5),
      SpiWriteThenRead 0x25 0 0, SpiWrite 0xA5 0 (- 5)] \<and>
   fst (sx1301_radio_spi_transfer_one (stub_bus [] [0xA5] 0) radio_a
        \<lparr>len = 2, tx_buf = Some [0xAA, 0xBB], rx_buf = None\<rparr> (fresh 2)) = 0"
  by (simp add: xfer_eval)

text \<open>
  C6, amended. For a transaction of length 1 to 3 with outgoing bytes whose page switch
  succeeded, the events after the page switch are, in this order: the write of byte 0
  to the block's address register; the write of byte 1 (0 for length 1) to the data
  register; the chip-select step that sets bit 0 (a read and a write of the
  chip-select register); the step that clears it; and then, if there is a receive
  buffer, the one read of the data-readback register. A failing address or data write
  ends the transaction with that code and nothing after it runs; a failure inside a
  chip-select step ends nothing and is not returned.
\<close>

theorem transfer_one_outgoing_sequence:
  assumes "len xfr \<noteq> 0" and "len xfr \<le> 3" and "xfr_wf xfr" and "tx_buf xfr = Some tx"
    and "sx1301_page_switch bus (page ssx)
           (dev_log Dbg ''transferring one (%u)'' [int (len xfr)] s) = (0, s1)"
  shows "outgoing_phase_ok ssx xfr tx
           (fst (sx1301_radio_spi_transfer_one bus ssx xfr s))
           (fst (snd (sx1301_radio_spi_transfer_one bus ssx xfr s)))
           (emitted s1 (snd (snd (sx1301_radio_spi_transfer_one bus ssx xfr s))))"
proof -
  obtain ret rxo s' where res: "sx1301_radio_spi_transfer_one bus ssx xfr s = (ret, rxo, s')"
    by (cases "sx1301_radio_spi_transfer_one bus ssx xfr s")
  from transfer_one_shape [OF assms(1,2,5) res]
  obtain a d r1 v1 q1 r2 v2 q2 r v where
    sh: "trace s' = trace s1 @
           (SpiWrite (wire_write_addr ssx REG_RADIO_X_ADDR) (tx ! 0) a #
            (if a \<noteq> 0 then []
             else SpiWrite (wire_write_addr ssx REG_RADIO_X_DATA)
                    (if len xfr \<ge> 2 then tx ! 1 else 0) d #
                  (if d \<noteq> 0 then []
                   else [SpiWriteThenRead (wire_read_addr ssx REG_RADIO_X_CS) r1 v1,
                         SpiWrite (wire_write_addr ssx REG_RADIO_X_CS)
                           ((if r1 \<noteq> 0 then 0 else v1) OR 1) q1,
                         SpiWriteThenRead (wire_read_addr ssx REG_RADIO_X_CS) r2 v2,
                         SpiWrite (wire_write_addr ssx REG_RADIO_X_CS)
                           ((if r2 \<noteq> 0 then 0 else v2) AND NOT 1) q2]))) @
           (if a \<noteq> 0 \<or> d \<noteq> 0 then []
            else case rx_buf xfr of
                   None \<Rightarrow> []
                 | Some rx \<Rightarrow> [SpiWriteThenRead (wire_read_addr ssx REG_RADIO_X_DATA_READBACK) r v])"
      "ret = (if a \<noteq> 0 then a else if d \<noteq> 0 then d
              else case rx_buf xfr of None \<Rightarrow> 0 | Some rx \<Rightarrow> r)"
      "rxo = (if a \<noteq> 0 \<or> d \<noteq> 0 then rx_buf xfr
              else case rx_buf xfr of
                     None \<Rightarrow> None
                   | Some rx \<Rightarrow> Some (if r \<noteq> 0 then rx else rx[len xfr - 1 := v]))"
    by (auto simp: assms(4))
  have "outgoing_phase_ok ssx xfr tx ret rxo (emitted s1 s')"
    unfolding sh emitted_def
    by (cases "a = 0"; cases "d = 0"; cases "rx_buf xfr";
        simp add: outgoing_phase_ok_def cs_step_ok_def incoming_phase_ok_def)
  then show ?thesis by (simp add: res)
qed

theorem transfer_one_outgoing_sequence_witness:
  "emitted (dev_log Dbg ''transferring one (%u)'' [3] (fresh 2))
     (snd (snd (sx1301_radio_spi_transfer_one (stub_bus [0x25] [] 0xCC) radio_a
        \<lparr>len = 3, tx_buf = Some [0xAA, 0xBB, 0], rx_buf = Some [0x11, 0x22, 0x33]\<rparr> (fresh 2)))) =
     [SpiWrite 0xA3 0xAA 0, SpiWrite 0xA1 0xBB 0,
      SpiWriteThenRead 0x25 (- 5) 0, SpiWrite 0xA5 1 0,
      SpiWriteThenRead 0x25 (- 5) 0, SpiWrite 0xA5 0 0,
      SpiWriteThenRead 0x22 0 0xCC] \<and>
   outgoing_phase_ok radio_a
     \<lparr>len = 3, tx_buf = Some [0xAA, 0xBB, 0], rx_buf = Some [0x11, 0x22, 0x33]\<rparr> [0xAA, 0xBB, 0]
     0 (Some [0x11, 0x22, 0xCC])
     (emitted (dev_log Dbg ''transferring one (%u)'' [3] (fresh 2))
        (snd (snd (sx1301_radio_spi_transfer_one (stub_bus [0x25] [] 0xCC) radio_a
           \<lparr>len = 3, tx_buf = Some [0xAA, 0xBB, 0], rx_buf = Some [0x11, 0x22, 0x33]\<rparr> (fresh 2)))))"
  using transfer_one_outgoing_sequence
          [of "\<lparr>len = 3, tx_buf = Some [0xAA, 0xBB, 0], rx_buf = Some [0x11, 0x22, 0x33]\<rparr>"
              "[0xAA, 0xBB, 0]" "stub_bus [0x25] [] 0xCC" radio_a "fresh 2"
              "dev_log Dbg ''transferring one (%u)'' [3] (fresh 2)"]
  by (simp add: xfer_eval)

lemma dbl_low7: "2 * (x AND 0x7f) = 2 * (x::u8)"
proof -
  have m: "(0x7f::u8) = mask 7" by (simp add: mask_eq_exp_minus_1)
  show ?thesis unfolding m
    by (rule bit_word_eqI) (auto simp: bit_simps)
qed

lemma low7_neq:
  fixes r :: u8
  assumes "2 * a \<noteq> 2 * b"
  shows "(r + a) AND 0x7f \<noteq> (r + b) AND 0x7f"
proof
  assume "(r + a) AND 0x7f = (r + b) AND 0x7f"
  then have "2 * ((r + a) AND 0x7f) = 2 * ((r + b) AND 0x7f)" by simp
  then have "2 * (r + a) = 2 * (r + b)" by (simp only: dbl_low7)
  then have "2 * a = 2 * b" by (simp add: distrib_left)
  with assms show False by simp
qed

lemma cs_read_is_not_readback [simp]:
  "wire_read_addr ssx REG_RADIO_X_CS \<noteq> wire_read_addr ssx REG_RADIO_X_DATA_READBACK"
  unfolding wire_read_addr_def REG_RADIO_X_CS_def REG_RADIO_X_DATA_READBACK_def
  by (rule low7_neq) simp

text \<open>
  C7, as stated, fails: not every transaction with a receive buffer gets to the
  readback. On radio A with the page selected, let the write to the address register
  fail with \<open>-EIO\<close>: the transaction returns \<open>-5\<close> after that one write, the
  data-readback register is never read and the receive buffer is as it was.
\<close>

theorem transfer_one_no_readback_after_failed_write:
  "sx1301_radio_spi_transfer_one (stub_bus [] [0xA3] 0xCC) radio_a
      \<lparr>len = 3, tx_buf = Some [0xAA, 0xBB, 0], rx_buf = Some [0x11, 0x22, 0x33]\<rparr> (fresh 2) =
     (- 5, Some [0x11, 0x22, 0x33],
      \<lparr>cur_page = 2, netdev_priv_cur_page = 0, radio_a_ctrl = None, radio_b_ctrl = None,
       trace = [SpiWrite 0xA3 0xAA (- 5)],
       klog = [(Dbg, ''transferring one (%u)'', [3]),
               (Err, ''SPI radio address write failed'', [])]\<rparr>) \<and>
   filter (is_readback_read radio_a) [SpiWrite 0xA3 0xAA (- 5)] = []"
  by (simp add: xfer_eval)

text \<open>
  C7, amended. For a transaction of length \<open>n\<close> from 1 to 3 with a receive buffer
  \<open>rx\<close> of \<open>n\<close> bytes, whose page switch succeeded and whose writes to the address
  and data registers, if it has outgoing bytes, both returned 0: among the events of
  the call exactly one is a read of the data-readback register, and it is the last
  event, with or without an outgoing phase before it; the call returns the code of
  that read; when the read succeeded the buffer afterwards holds the byte read at
  position \<open>n - 1\<close>; and no other position of the buffer differs from \<open>rx\<close>.
\<close>

theorem transfer_one_readback_last_position:
  assumes "len xfr \<noteq> 0" and "len xfr \<le> 3" and "xfr_wf xfr" and "rx_buf xfr = Some rx"
    and ps: "sx1301_page_switch bus (page ssx)
               (dev_log Dbg ''transferring one (%u)'' [int (len xfr)] s) = (0, s1)"
    and out: "case tx_buf xfr of
                None \<Rightarrow> True
              | Some tx \<Rightarrow>
                  spi_write bus (trace s1) (wire_write_addr ssx REG_RADIO_X_ADDR) (tx ! 0) = 0 \<and>
                  spi_write bus
                    (trace s1 @ [SpiWrite (wire_write_addr ssx REG_RADIO_X_ADDR) (tx ! 0) 0])
                    (wire_write_addr ssx REG_RADIO_X_DATA)
                    (if len xfr \<ge> 2 then tx ! 1 else 0) = 0"
  shows "readback_exactly_once ssx xfr rx
           (fst (sx1301_radio_spi_transfer_one bus ssx xfr s))
           (fst (snd (sx1301_radio_spi_transfer_one bus ssx xfr s)))
           (emitted s (snd (snd (sx1301_radio_spi_transfer_one bus ssx xfr s)))) \<and>
         (case fst (snd (sx1301_radio_spi_transfer_one bus ssx xfr s)) of
            None \<Rightarrow> False
          | Some rx' \<Rightarrow>
              length rx' = length rx \<and> (\<forall>i. i \<noteq> len xfr - 1 \<longrightarrow> rx' ! i = rx ! i) \<and>
              (fst (sx1301_radio_spi_transfer_one bus ssx xfr s) = 0 \<longrightarrow>
                 last (emitted s (snd (snd (sx1301_radio_spi_transfer_one bus ssx xfr s)))) =
                   SpiWriteThenRead (wire_read_addr ssx REG_RADIO_X_DATA_READBACK) 0
                     (rx' ! (len xfr - 1))))"
proof -
  have lrx: "len xfr - 1 < length rx"
    using assms(1-4) by (simp add: xfr_wf_def)
  obtain ret rxo s' where res: "sx1301_radio_spi_transfer_one bus ssx xfr s = (ret, rxo, s')"
    by (cases "sx1301_radio_spi_transfer_one bus ssx xfr s")
  note pre = page_switch_step [OF ps]
  obtain a d r1 v1 q1 r2 v2 q2 r v where
    sh: "trace s' = trace s1 @
           (case tx_buf xfr of
              None \<Rightarrow> []
            | Some tx \<Rightarrow>
                SpiWrite (wire_write_addr ssx REG_RADIO_X_ADDR) (tx ! 0) a #
                (if a \<noteq> 0 then []
                 else SpiWrite (wire_write_addr ssx REG_RADIO_X_DATA)
                        (if len xfr \<ge> 2 then tx ! 1 else 0) d #
                      (if d \<noteq> 0 then []
                       else [SpiWriteThenRead (wire_read_addr ssx REG_RADIO_X_CS) r1 v1,
                             SpiWrite (wire_write_addr ssx REG_RADIO_X_CS)
                               ((if r1 \<noteq> 0 then 0 else v1) OR 1) q1,
                             SpiWriteThenRead (wire_read_addr ssx REG_RADIO_X_CS) r2 v2,
                             SpiWrite (wire_write_addr ssx REG_RADIO_X_CS)
                               ((if r2 \<noteq> 0 then 0 else v2) AND NOT 1) q2]))) @
           (if (case tx_buf xfr of None \<Rightarrow> False | Some tx \<Rightarrow> a \<noteq> 0 \<or> d \<noteq> 0) then []
            else case rx_buf xfr of
                   None \<Rightarrow> []
                 | Some rx \<Rightarrow> [SpiWriteThenRead (wire_read_addr ssx REG_RADIO_X_DATA_READBACK) r v])"
      "ret = (if (case tx_buf xfr of None \<Rightarrow> False | Some tx \<Rightarrow> a \<noteq> 0) then a
              else if (case tx_buf xfr of None \<Rightarrow> False | Some tx \<Rightarrow> d \<noteq> 0) then d
              else case rx_buf xfr of None \<Rightarrow> 0 | Some rx \<Rightarrow> r)"
      "rxo = (if (case tx_buf xfr of None \<Rightarrow> False | Some tx \<Rightarrow> a \<noteq> 0 \<or> d \<noteq> 0) then rx_buf xfr
              else case rx_buf xfr of
                     None \<Rightarrow> None
                   | Some rx \<Rightarrow> Some (if r \<noteq> 0 then rx else rx[len xfr - 1 := v]))"
    and ans: "case tx_buf xfr of
              None \<Rightarrow> True
            | Some tx \<Rightarrow>
                a = spi_write bus (trace s1) (wire_write_addr ssx REG_RADIO_X_ADDR) (tx ! 0) \<and>
                (a = 0 \<longrightarrow>
                   d = spi_write bus
                         (trace s1 @ [SpiWrite (wire_write_addr ssx REG_RADIO_X_ADDR) (tx ! 0) 0])
                         (wire_write_addr ssx REG_RADIO_X_DATA)
                         (if len xfr \<ge> 2 then tx ! 1 else 0))"
    using transfer_one_shape [OF assms(1) assms(2) ps res] by blast
  have ok: "case tx_buf xfr of None \<Rightarrow> True | Some tx \<Rightarrow> a = 0 \<and> d = 0"
    using ans out by (cases "tx_buf xfr") auto
  have "readback_exactly_once ssx xfr rx ret rxo (emitted s s') \<and>
        (case rxo of None \<Rightarrow> False
         | Some rx' \<Rightarrow>
             length rx' = length rx \<and> (\<forall>i. i \<noteq> len xfr - 1 \<longrightarrow> rx' ! i = rx ! i) \<and>
             (ret = 0 \<longrightarrow>
                last (emitted s s') =
                  SpiWriteThenRead (wire_read_addr ssx REG_RADIO_X_DATA_READBACK) 0
                    (rx' ! (len xfr - 1))))"
    unfolding sh emitted_def
    using pre lrx ok
    by (cases "tx_buf xfr"; cases "r = 0";
        simp add: readback_exactly_once_def assms(4))
  then show ?thesis by (simp add: res split: option.splits)
qed

theorem transfer_one_readback_last_position_witness:
  "sx1301_radio_spi_transfer_one (stub_bus [] [] 0xCC) radio_a
      \<lparr>len = 3, tx_buf = Some [0xAA, 0xBB, 0], rx_buf = Some [0x11, 0x22, 0x33]\<rparr> (fresh 0xff) =
     (0, Some [0x11, 0x22, 0xCC],
      \<lparr>cur_page = 2, netdev_priv_cur_page = 0, radio_a_ctrl = None, radio_b_ctrl = None,
       trace = [SpiWrite 0x80 2 0, SpiWrite 0xA3 0xAA 0, SpiWrite 0xA1 0xBB 0,
                SpiWriteThenRead 0x25 0 0xCC, SpiWrite 0xA5 0xCD 0,
                SpiWriteThenRead 0x25 0 0xCC, SpiWrite 0xA5 0xCC 0,
                SpiWriteThenRead 0x22 0 0xCC],
       klog = [(Dbg, ''transferring one (%u)'', [3]), (Dbg, ''switching to page %u'', [2]),
               (Dbg, ''setting CS to %s'', [1]), (Dbg, ''setting CS to %s'', [0])]\<rparr>) \<and>
   readback_exactly_once radio_a
     \<lparr>len = 3, tx_buf = Some [0xAA, 0xBB, 0], rx_buf = Some [0x11, 0x22, 0x33]\<rparr> [0x11, 0x22, 0x33]
     0 (Some [0x11, 0x22, 0xCC])
     [SpiWrite 0x80 2 0, SpiWrite 0xA3 0xAA 0, SpiWrite 0xA1 0xBB 0,
      SpiWriteThenRead 0x25 0 0xCC, SpiWrite 0xA5 0xCD 0,
      SpiWriteThenRead 0x25 0 0xCC, SpiWrite 0xA5 0xCC 0,
      SpiWriteThenRead 0x22 0 0xCC] \<and>
   readback_exactly_once radio_b
     \<lparr>len = 1, tx_buf = None, rx_buf = Some [0x11]\<rparr> [0x11]
     (- 5) (Some [0x11])
     (emitted (fresh 2)
        (snd (snd (sx1301_radio_spi_transfer_one (stub_bus [0x27] [] 0xCC) radio_b
           \<lparr>len = 1, tx_buf = None, rx_buf = Some [0x11]\<rparr> (fresh 2)))))"
  using transfer_one_readback_last_position
          [of "\<lparr>len = 3, tx_buf = Some [0xAA, 0xBB, 0], rx_buf = Some [0x11, 0x22, 0x33]\<rparr>"
              "[0x11, 0x22, 0x33]" "stub_bus [] [] 0xCC" radio_a "fresh 0xff"
              "\<lparr>cur_page = 2, netdev_priv_cur_page = 0, radio_a_ctrl = None, radio_b_ctrl = None,
                trace = [SpiWrite 0x80 2 0],
                klog = [(Dbg, ''transferring one (%u)'', [3]), (Dbg, ''switching to page %u'', [2])]\<rparr>"]
        transfer_one_readback_last_position
          [of "\<lparr>len = 1, tx_buf = None, rx_buf = Some [0x11]\<rparr>"
              "[0x11]" "stub_bus [0x27] [] 0xCC" radio_b "fresh 2"
              "dev_log Dbg ''transferring one (%u)'' [1] (fresh 2)"]
  by (simp add: xfer_eval)

lemma cs_bit_set: "(c OR 1) AND 1 = (1::u8)"
  by (rule bit_word_eqI) (auto simp: bit_simps)

lemma cs_bit_clear: "(c AND NOT 1) AND 1 = (0::u8)"
  by (rule bit_word_eqI) (auto simp: bit_simps)

lemma cs_bit_clear_num: "(c AND - 2) AND 1 = (0::u8)"
  using cs_bit_clear [of c] by simp

lemma radio_wire_addrs:
  "wire_write_addr radio_a REG_RADIO_X_CS = 0xA5"
  "wire_write_addr radio_a REG_RADIO_X_ADDR = 0xA3"
  "wire_write_addr radio_a REG_RADIO_X_DATA = 0xA1"
  "wire_read_addr radio_a REG_RADIO_X_CS = 0x25"
  "wire_read_addr radio_a REG_RADIO_X_DATA_READBACK = 0x22"
  "wire_write_addr radio_b REG_RADIO_X_CS = 0xAA"
  "wire_write_addr radio_b REG_RADIO_X_ADDR = 0xA8"
  "wire_write_addr radio_b REG_RADIO_X_DATA = 0xA6"
  "wire_read_addr radio_b REG_RADIO_X_CS = 0x2A"
  "wire_read_addr radio_b REG_RADIO_X_DATA_READBACK = 0x27"
  by (simp_all add: wire_write_addr_def wire_read_addr_def radio_a_def radio_b_def
        REG_2_SPI_RADIO_A_DATA_def REG_2_SPI_RADIO_B_DATA_def REG_RADIO_X_CS_def
        REG_RADIO_X_ADDR_def REG_RADIO_X_DATA_def REG_RADIO_X_DATA_READBACK_def)

lemma transfer_one_cs_bracketed:
  assumes ab: "ssx = radio_a \<or> ssx = radio_b"
    and res: "sx1301_radio_spi_transfer_one bus ssx xfr s = (ret, rxo, s')"
  shows "cs_asserts_bracketed ssx (emitted s s') \<and>
         (tx_buf xfr = None \<longrightarrow> \<not> list_ex (is_cs_assert ssx) (emitted s s'))"
proof (cases "len xfr = 0 \<or> len xfr > 3")
  case True
  then show ?thesis
    using res by (auto simp: sx1301_radio_spi_transfer_one_def emitted_def)
next
  case False
  then have len: "len xfr \<noteq> 0" "len xfr \<le> 3" by simp_all
  obtain p s1 where ps: "sx1301_page_switch bus (page ssx)
               (dev_log Dbg ''transferring one (%u)'' [int (len xfr)] s) = (p, s1)"
    by (cases "sx1301_page_switch bus (page ssx)
               (dev_log Dbg ''transferring one (%u)'' [int (len xfr)] s)")
  show ?thesis
  proof (cases "p = 0")
    case False
    from transfer_one_switch_failed [OF len ps False] res
    show ?thesis
      using ab by (auto simp: emitted_def radio_wire_addrs)
  next
    case True
    note ps = ps [unfolded True]
    note pre = page_switch_step [OF ps]
  obtain a d r1 v1 q1 r2 v2 q2 r v where
    sh: "trace s' = trace s1 @
           (case tx_buf xfr of
              None \<Rightarrow> []
            | Some tx \<Rightarrow>
                SpiWrite (wire_write_addr ssx REG_RADIO_X_ADDR) (tx ! 0) a #
                (if a \<noteq> 0 then []
                 else SpiWrite (wire_write_addr ssx REG_RADIO_X_DATA)
                        (if len xfr \<ge> 2 then tx ! 1 else 0) d #
                      (if d \<noteq> 0 then []
                       else [SpiWriteThenRead (wire_read_addr ssx REG_RADIO_X_CS) r1 v1,
                             SpiWrite (wire_write_addr ssx REG_RADIO_X_CS)
                               ((if r1 \<noteq> 0 then 0 else v1) OR 1) q1,
                             SpiWriteThenRead (wire_read_addr ssx REG_RADIO_X_CS) r2 v2,
                             SpiWrite (wire_write_addr ssx REG_RADIO_X_CS)
                               ((if r2 \<noteq> 0 then 0 else v2) AND NOT 1) q2]))) @
           (if (case tx_buf xfr of None \<Rightarrow> False | Some tx \<Rightarrow> a \<noteq> 0 \<or> d \<noteq> 0) then []
            else case rx_buf xfr of
                   None \<Rightarrow> []
                 | Some rx \<Rightarrow> [SpiWriteThenRead (wire_read_addr ssx REG_RADIO_X_DATA_READBACK) r v])"
    using transfer_one_shape [OF len(1) len(2) ps res] by blast
    from ab show ?thesis
    proof (elim disjE)
      assume "ssx = radio_a"
      then show ?thesis
        unfolding sh emitted_def
        using pre
        by (cases "tx_buf xfr"; cases "a = 0"; cases "d = 0"; cases "rx_buf xfr";
            simp add: radio_wire_addrs cs_bit_set cs_bit_clear cs_bit_clear_num)
    next
      assume "ssx = radio_b"
      then show ?thesis
        unfolding sh emitted_def
        using pre
        by (cases "tx_buf xfr"; cases "a = 0"; cases "d = 0"; cases "rx_buf xfr";
            simp add: radio_wire_addrs cs_bit_set cs_bit_clear cs_bit_clear_num)
    qed
  qed
qed

lemma spi_set_cs_false_events:
  assumes ab: "ssx = radio_a \<or> ssx = radio_b"
  shows "\<not> list_ex (is_cs_assert ssx) (emitted s (sx1301_radio_spi_set_cs bus ssx False s)) \<and>
         (cur_page s = page ssx \<longrightarrow>
            cs_step_ok ssx False (emitted s (sx1301_radio_spi_set_cs bus ssx False s)))"
proof -
  define s0 where "s0 = dev_log Dbg ''setting SPI CS to %s'' [0] s"
  define t0 where "t0 = dev_log Dbg ''setting CS to %s'' [0] s0"
  obtain c s1 where cs: "sx1301_radio_set_cs bus ssx False s0 = (c, s1)"
    by (cases "sx1301_radio_set_cs bus ssx False s0")
  obtain p t1 where ps: "sx1301_page_switch bus (page ssx) t0 = (p, t1)"
    by (cases "sx1301_page_switch bus (page ssx) t0")
  have out: "sx1301_radio_spi_set_cs bus ssx False s =
               (if c \<noteq> 0 then dev_log Warn ''failed to write CS (%d)'' [c] s1 else s1)"
    using cs by (simp add: sx1301_radio_spi_set_cs_def s0_def)
  have tr: "trace (sx1301_radio_spi_set_cs bus ssx False s) = trace s1"
    by (simp add: out)
  note pre = page_switch_step [OF ps]
  show ?thesis
  proof (cases "p = 0")
    case False
    then have "sx1301_radio_set_cs bus ssx False s0 =
                 (p, dev_log Warn ''failed to switch page for CS (%d)'' [p] t1)"
      using ps by (simp add: sx1301_radio_set_cs_def t0_def)
    with cs have "trace s1 = trace t1" by auto
    moreover have "cur_page s \<noteq> page ssx"
      using ps False by (auto simp: page_switch_hit t0_def s0_def)
    ultimately show ?thesis
      using pre ab by (auto simp: tr emitted_def t0_def s0_def radio_wire_addrs)
  next
    case True
    have cp: "cur_page t1 = page ssx"
      using page_switch_cache [OF ps] True by simp
    obtain r v s2 where rd: "sx1301_read bus (regs ssx + REG_RADIO_X_CS) t1 = (r, v, s2)"
      by (cases "sx1301_read bus (regs ssx + REG_RADIO_X_CS) t1")
    define s3 where "s3 = (if r \<noteq> 0 then dev_log Warn ''failed to read CS (%d)'' [r] s2 else s2)"
    obtain q s4 where wr:
      "sx1301_write bus (regs ssx + REG_RADIO_X_CS) ((if r \<noteq> 0 then 0 else v) AND NOT 1) s3 = (q, s4)"
      by (cases "sx1301_write bus (regs ssx + REG_RADIO_X_CS) ((if r \<noteq> 0 then 0 else v) AND NOT 1) s3")
    have "sx1301_radio_set_cs bus ssx False s0 =
            (0, if q \<noteq> 0 then dev_log Warn ''failed to write CS (%d)'' [q] s4 else s4)"
      using ps True rd wr
      by (cases "r = 0"; simp add: sx1301_radio_set_cs_def t0_def s3_def)
    with cs have "trace s1 = trace s4" by auto
    moreover have "trace s3 = trace s2" by (simp add: s3_def)
    ultimately have "trace s1 = trace t1 @
        [SpiWriteThenRead (wire_read_addr ssx REG_RADIO_X_CS) r v,
         SpiWrite (wire_write_addr ssx REG_RADIO_X_CS) ((if r \<noteq> 0 then 0 else v) AND NOT 1) q]"
      using read_step [OF rd] write_step [OF wr]
      by (simp add: wire_read_addr_def wire_write_addr_def)
    then show ?thesis
      using pre ab
      by (auto simp: tr emitted_def t0_def s0_def radio_wire_addrs cs_bit_clear cs_bit_clear_num
            cs_step_ok_def)
  qed
qed

text \<open>
  C10. For each of the two radio controllers: the \<open>set_cs\<close> callback with
  \<open>enable\<close> true returns at once, with no bus transfer and no change of the state
  other than its debug line; with \<open>enable\<close> false it never asserts the chip-select,
  and with the page selected it does exactly the read-modify-write that clears bit 0.
  In the events of any transaction, every write that asserts the chip-select is
  followed at once by the read and the write that deassert it, and a transaction
  without outgoing bytes asserts nothing.
\<close>

theorem cs_asserted_only_in_outgoing_path:
  assumes "ssx = radio_a \<or> ssx = radio_b"
  shows "sx1301_radio_spi_set_cs bus ssx True s = dev_log Dbg ''setting SPI CS to %s'' [1] s \<and>
         emitted s (sx1301_radio_spi_set_cs bus ssx True s) = [] \<and>
         cur_page (sx1301_radio_spi_set_cs bus ssx True s) = cur_page s \<and>
         \<not> list_ex (is_cs_assert ssx) (emitted s (sx1301_radio_spi_set_cs bus ssx False s)) \<and>
         (cur_page s = page ssx \<longrightarrow>
            cs_step_ok ssx False (emitted s (sx1301_radio_spi_set_cs bus ssx False s))) \<and>
         cs_asserts_bracketed ssx (emitted s (snd (snd (sx1301_radio_spi_transfer_one bus ssx xfr s)))) \<and>
         (tx_buf xfr = None \<longrightarrow>
            \<not> list_ex (is_cs_assert ssx)
                 (emitted s (snd (snd (sx1301_radio_spi_transfer_one bus ssx xfr s)))))"
proof -
  obtain ret rxo s' where res: "sx1301_radio_spi_transfer_one bus ssx xfr s = (ret, rxo, s')"
    by (cases "sx1301_radio_spi_transfer_one bus ssx xfr s")
  have "sx1301_radio_spi_set_cs bus ssx True s = dev_log Dbg ''setting SPI CS to %s'' [1] s"
    by (simp add: sx1301_radio_spi_set_cs_def)
  then show ?thesis
    using transfer_one_cs_bracketed [OF assms res] spi_set_cs_false_events [OF assms, of s bus] res
    by (simp add: emitted_def)
qed

theorem cs_asserted_only_in_outgoing_path_witness:
  "sx1301_radio_spi_set_cs (stub_bus [] [] 0xCC) radio_b True (fresh 2) =
     \<lparr>cur_page = 2, netdev_priv_cur_page = 0, radio_a_ctrl = None, radio_b_ctrl = None,
      trace = [], klog = [(Dbg, ''setting SPI CS to %s'', [1])]\<rparr> \<and>
   emitted (fresh 2) (sx1301_radio_spi_set_cs (stub_bus [] [] 0xCD) radio_b False (fresh 2)) =
     [SpiWriteThenRead 0x2A 0 0xCD, SpiWrite 0xAA 0xCC 0] \<and>
   emitted (fresh 2)
     (snd (snd (sx1301_radio_spi_transfer_one (stub_bus [] [] 0xCC) radio_b
        \<lparr>len = 2, tx_buf = Some [0xAA, 0xBB], rx_buf = None\<rparr> (fresh 2)))) =
     [SpiWrite 0xA8 0xAA 0, SpiWrite 0xA6 0xBB 0,
      SpiWriteThenRead 0x2A 0 0xCC, SpiWrite 0xAA 0xCD 0,
      SpiWriteThenRead 0x2A 0 0xCC, SpiWrite 0xAA 0xCC 0] \<and>
   cs_asserts_bracketed radio_b
     (emitted (fresh 2)
        (snd (snd (sx1301_radio_spi_transfer_one (stub_bus [] [] 0xCC) radio_b
           \<lparr>len = 2, tx_buf = Some [0xAA, 0xBB], rx_buf = None\<rparr> (fresh 2)))))"
  using cs_asserted_only_in_outgoing_path
          [of radio_b "stub_bus [] [] 0xCC" "fresh 2"
              "\<lparr>len = 2, tx_buf = Some [0xAA, 0xBB], rx_buf = None\<rparr>"]
  by (simp add: xfer_eval)

subsection \<open>Bring-up\<close>

lemma radios_events:
  "\<exists>evs. trace (snd (sx1301_probe_radios env s)) = trace s @ evs \<and> rmw_run [] evs = Some []"
  by (simp add: sx1301_probe_radios_def Let_def)

lemmas probe_simps = frame_or frame_or2 frame_and2 REG_VERSION_def

lemma rst_clear_events:
  "\<exists>evs. trace (snd (probe_radio_rst_clear env bus s)) = trace s @ evs \<and>
         rmw_run [(43, REG_2_43_RADIO_RST, False)] evs \<noteq> None \<and>
         (fst (probe_radio_rst_clear env bus s) = 0 \<longrightarrow>
            rmw_run [(43, REG_2_43_RADIO_RST, False)] evs = Some [])"
proof -
  obtain r v s1 where rd: "sx1301_read bus 43 s = (r, v, s1)"
    by (cases "sx1301_read bus 43 s")
  obtain w s2 where wr: "sx1301_write bus 43 (v AND NOT REG_2_43_RADIO_RST) s1 = (w, s2)"
    by (cases "sx1301_write bus 43 (v AND NOT REG_2_43_RADIO_RST) s1")
  obtain evs' where nx:
    "trace (snd (sx1301_probe_radios env s2)) = trace s2 @ evs'"
    "rmw_run [] evs' = Some []"
    using radios_events by blast
  show ?thesis
    using rd wr nx read_step [OF rd] write_step [OF wr]
    by (cases "r = 0"; cases "w = 0"; simp add: probe_radio_rst_clear_def probe_simps)
qed

lemma rst_set_events:
  "\<exists>evs. trace (snd (probe_radio_rst_set env bus s)) = trace s @ evs \<and>
         rmw_run [(43, REG_2_43_RADIO_RST, True), (43, REG_2_43_RADIO_RST, False)] evs \<noteq> None \<and>
         (fst (probe_radio_rst_set env bus s) = 0 \<longrightarrow>
            rmw_run [(43, REG_2_43_RADIO_RST, True), (43, REG_2_43_RADIO_RST, False)] evs = Some [])"
proof -
  obtain r v s1 where rd: "sx1301_read bus 43 s = (r, v, s1)"
    by (cases "sx1301_read bus 43 s")
  obtain w s2 where wr: "sx1301_write bus 43 (v OR REG_2_43_RADIO_RST) s1 = (w, s2)"
    by (cases "sx1301_write bus 43 (v OR REG_2_43_RADIO_RST) s1")
  obtain evs' where nx:
    "trace (snd (probe_radio_rst_clear env bus (emit (Msleep 5) s2))) = trace (emit (Msleep 5) s2) @ evs'"
    "rmw_run [(43, REG_2_43_RADIO_RST, False)] evs' \<noteq> None"
    "fst (probe_radio_rst_clear env bus (emit (Msleep 5) s2)) = 0 \<longrightarrow>
       rmw_run [(43, REG_2_43_RADIO_RST, False)] evs' = Some []"
    using rst_clear_events by blast
  show ?thesis
    using rd wr nx read_step [OF rd] write_step [OF wr]
    by (cases "r = 0"; cases "w = 0"; simp add: probe_radio_rst_set_def probe_simps)
qed

text \<open>
  The page switch of lines 298 to 302 adds the page-select write or, when the byte it
  compares already holds 2, nothing; the steps after it are the same in both cases.
\<close>

lemma radio_enable_events:
  "\<exists>evs. trace (snd (probe_radio_enable env bus s)) = trace s @ evs \<and>
         rmw_run [(43, REG_2_43_RADIO_B_EN OR REG_2_43_RADIO_A_EN, True),
                  (43, REG_2_43_RADIO_RST, True), (43, REG_2_43_RADIO_RST, False)] evs \<noteq> None \<and>
         (fst (probe_radio_enable env bus s) = 0 \<longrightarrow>
            rmw_run [(43, REG_2_43_RADIO_B_EN OR REG_2_43_RADIO_A_EN, True),
                     (43, REG_2_43_RADIO_RST, True), (43, REG_2_43_RADIO_RST, False)] evs = Some [])"
proof -
  obtain p s0 where ps: "sx1301_page_switch bus 2 s = (p, s0)"
    by (cases "sx1301_page_switch bus 2 s")
  obtain r v s1 where rd: "sx1301_read bus 43 s0 = (r, v, s1)"
    by (cases "sx1301_read bus 43 s0")
  obtain w s2 where wr:
    "sx1301_write bus 43 (v OR (REG_2_43_RADIO_B_EN OR REG_2_43_RADIO_A_EN)) s1 = (w, s2)"
    by (cases "sx1301_write bus 43 (v OR (REG_2_43_RADIO_B_EN OR REG_2_43_RADIO_A_EN)) s1")
  obtain evs' where nx:
    "trace (snd (probe_radio_rst_set env bus (emit (Msleep 500) s2))) = trace (emit (Msleep 500) s2) @ evs'"
    "rmw_run [(43, REG_2_43_RADIO_RST, True), (43, REG_2_43_RADIO_RST, False)] evs' \<noteq> None"
    "fst (probe_radio_rst_set env bus (emit (Msleep 500) s2)) = 0 \<longrightarrow>
       rmw_run [(43, REG_2_43_RADIO_RST, True), (43, REG_2_43_RADIO_RST, False)] evs' = Some []"
    using rst_set_events by blast
  show ?thesis
    using ps rd wr nx page_switch_step [OF ps] read_step [OF rd] write_step [OF wr]
    by (cases "cur_page s = 2"; cases "p = 0"; cases "r = 0"; cases "w = 0";
        simp add: probe_radio_enable_def probe_simps del: bit.de_Morgan_disj)
qed

lemma clk32m_disable_events:
  "\<exists>evs. trace (snd (probe_clk32m_disable env bus s)) = trace s @ evs \<and>
         rmw_run (drop 1 probe_rmw_steps) evs \<noteq> None \<and>
         (fst (probe_clk32m_disable env bus s) = 0 \<longrightarrow>
            rmw_run (drop 1 probe_rmw_steps) evs = Some [])"
proof -
  obtain r v s1 where rd: "sx1301_read bus 17 s = (r, v, s1)"
    by (cases "sx1301_read bus 17 s")
  obtain w s2 where wr: "sx1301_write bus 17 (v AND NOT REG_17_CLK32M_EN) s1 = (w, s2)"
    by (cases "sx1301_write bus 17 (v AND NOT REG_17_CLK32M_EN) s1")
  obtain evs' where nx:
    "trace (snd (probe_radio_enable env bus s2)) = trace s2 @ evs'"
    "rmw_run [(43, REG_2_43_RADIO_B_EN OR REG_2_43_RADIO_A_EN, True),
              (43, REG_2_43_RADIO_RST, True), (43, REG_2_43_RADIO_RST, False)] evs' \<noteq> None"
    "fst (probe_radio_enable env bus s2) = 0 \<longrightarrow>
       rmw_run [(43, REG_2_43_RADIO_B_EN OR REG_2_43_RADIO_A_EN, True),
                (43, REG_2_43_RADIO_RST, True), (43, REG_2_43_RADIO_RST, False)] evs' = Some []"
    using radio_enable_events by blast
  show ?thesis
    using rd wr nx read_step [OF rd] write_step [OF wr]
    by (cases "r = 0"; cases "w = 0";
        simp add: probe_clk32m_disable_def probe_rmw_steps_def probe_simps
             del: bit.de_Morgan_disj)
qed

lemma global_disable_events:
  "\<exists>evs. trace (snd (probe_global_disable env bus s)) = trace s @ evs \<and>
         rmw_run probe_rmw_steps evs \<noteq> None \<and>
         (fst (probe_global_disable env bus s) = 0 \<longrightarrow> rmw_run probe_rmw_steps evs = Some [])"
proof -
  obtain r v s1 where rd: "sx1301_read bus 16 s = (r, v, s1)"
    by (cases "sx1301_read bus 16 s")
  obtain w s2 where wr: "sx1301_write bus 16 (v AND NOT REG_16_GLOBAL_EN) s1 = (w, s2)"
    by (cases "sx1301_write bus 16 (v AND NOT REG_16_GLOBAL_EN) s1")
  obtain evs' where nx:
    "trace (snd (probe_clk32m_disable env bus s2)) = trace s2 @ evs'"
    "rmw_run (drop 1 probe_rmw_steps) evs' \<noteq> None"
    "fst (probe_clk32m_disable env bus s2) = 0 \<longrightarrow> rmw_run (drop 1 probe_rmw_steps) evs' = Some []"
    using clk32m_disable_events by blast
  show ?thesis
    using rd wr nx read_step [OF rd] write_step [OF wr]
    by (cases "r = 0"; cases "w = 0";
        simp add: probe_global_disable_def probe_rmw_steps_def probe_simps
             del: bit.de_Morgan_disj)
qed

lemma page_reset_events:
  "\<exists>evs. trace (snd (probe_page_reset env bus s)) = trace s @ evs \<and>
         rmw_run probe_rmw_steps evs \<noteq> None \<and>
         (fst (probe_page_reset env bus s) = 0 \<longrightarrow> rmw_run probe_rmw_steps evs = Some [])"
proof -
  obtain w1 s1 where w1: "sx1301_write bus REG_PAGE_RESET 0 s = (w1, s1)"
    by (cases "sx1301_write bus REG_PAGE_RESET 0 s")
  obtain w2 s2 where w2: "sx1301_write bus REG_PAGE_RESET REG_PAGE_RESET_SOFT_RESET s1 = (w2, s2)"
    by (cases "sx1301_write bus REG_PAGE_RESET REG_PAGE_RESET_SOFT_RESET s1")
  obtain evs' where nx:
    "trace (snd (probe_global_disable env bus s2)) = trace s2 @ evs'"
    "rmw_run probe_rmw_steps evs' \<noteq> None"
    "fst (probe_global_disable env bus s2) = 0 \<longrightarrow> rmw_run probe_rmw_steps evs' = Some []"
    using global_disable_events by blast
  show ?thesis
    using w1 w2 nx write_step [OF w1] write_step [OF w2]
    by (cases "w1 = 0"; cases "w2 = 0";
        simp add: probe_page_reset_def sx1301_soft_reset_def REG_PAGE_RESET_def probe_simps)
qed

lemma probe_events:
  "\<exists>evs. trace (snd (sx1301_probe env bus s)) = trace s @ evs \<and>
         rmw_run probe_rmw_steps evs \<noteq> None \<and>
         (fst (sx1301_probe env bus s) = 0 \<longrightarrow> rmw_run probe_rmw_steps evs = Some [])"
proof -
  define s5 where
    "s5 = emit SpiSetup (emit (Msleep 100) (emit (GpiodSetValue 0) (emit (Msleep 100) (emit (GpiodSetValue 1) s))))"
  obtain r v s6 where rd: "sx1301_read bus REG_VERSION s5 = (r, v, s6)"
    by (cases "sx1301_read bus REG_VERSION s5")
  obtain evs' where nx:
    "trace (snd (probe_page_reset env bus (s6\<lparr>netdev_priv_cur_page := 0xff\<rparr>))) =
       trace (s6\<lparr>netdev_priv_cur_page := 0xff\<rparr>) @ evs'"
    "rmw_run probe_rmw_steps evs' \<noteq> None"
    "fst (probe_page_reset env bus (s6\<lparr>netdev_priv_cur_page := 0xff\<rparr>)) = 0 \<longrightarrow>
       rmw_run probe_rmw_steps evs' = Some []"
    using page_reset_events by blast
  have neg: "IS_ERR (devm_gpiod_get_optional env) \<Longrightarrow> devm_gpiod_get_optional env \<noteq> 0"
    by (auto simp: IS_ERR_def)
  have t5: "trace s5 = trace s @ [GpiodSetValue 1, Msleep 100, GpiodSetValue 0, Msleep 100, SpiSetup]"
    by (simp add: s5_def)
  show ?thesis
    using rd nx read_step [OF rd] neg t5
    by (cases "IS_ERR (devm_gpiod_get_optional env)"; cases "r = 0"; cases "v = 103";
        cases "alloc_loradev_ok env";
        simp add: sx1301_probe_def s5_def [symmetric] probe_simps
                  ENXIO_def ENOMEM_def Let_def)
qed

text \<open>
  C8. In any run of probe, on any device and whatever the byte that
  \<open>sx1301_page_switch\<close> compares holds at the start: each read-modify-write step that
  probe gets to (register 16 with the global enable bit, 17 with the clock enable bit,
  43 with the two radio enable bits, then with the radio reset bit set and again
  cleared) reads its register and, if the read succeeded, writes to the same register
  in the very next transfer a value that equals the value read on every bit outside
  the step's mask, with the mask's bits all set or all cleared; no other write goes to
  register 16, 17 or 43. A run that returns 0 has been through all five steps.
\<close>

theorem probe_rmw_preserves_other_bits:
  "rmw_run probe_rmw_steps (emitted s (snd (sx1301_probe env bus s))) \<noteq> None \<and>
   (fst (sx1301_probe env bus s) = 0 \<longrightarrow>
      rmw_run probe_rmw_steps (emitted s (snd (sx1301_probe env bus s))) = Some [])"
  using probe_events [of env bus s] by (auto simp: emitted_def)

lemmas probe_eval =
  sx1301_probe_def probe_page_reset_def probe_global_disable_def
  probe_clk32m_disable_def probe_radio_enable_def probe_radio_rst_set_def
  probe_radio_rst_clear_def sx1301_probe_radios_def sx1301_soft_reset_def
  sx1301_page_switch_def read_unfold write_unfold
  all_ok_env_def version_bus_def stub_bus_def fresh_def IS_ERR_def
  REG_VERSION_def REG_PAGE_RESET_def REG_PAGE_RESET_SOFT_RESET_def
  REG_16_GLOBAL_EN_def REG_17_CLK32M_EN_def REG_2_43_RADIO_A_EN_def
  REG_2_43_RADIO_B_EN_def REG_2_43_RADIO_RST_def radio_a_def radio_b_def
  REG_2_SPI_RADIO_A_DATA_def REG_2_SPI_RADIO_B_DATA_def
  ENXIO_def ENOMEM_def probe_rmw_steps_def
  emitted_def emit_def dev_log_def Let_def

theorem probe_rmw_preserves_other_bits_witness:
  "emitted (fresh 0) (snd (sx1301_probe all_ok_env (version_bus 0xB9) (fresh 0))) =
     [GpiodSetValue 1, Msleep 100, GpiodSetValue 0, Msleep 100, SpiSetup,
      SpiWriteThenRead 1 0 103, SpiWrite 0x80 0 0, SpiWrite 0x80 0x80 0,
      SpiWriteThenRead 16 0 0xB9, SpiWrite 0x90 0xB1 0,
      SpiWriteThenRead 17 0 0xB9, SpiWrite 0x91 0xB8 0,
      SpiWrite 0x80 2 0,
      SpiWriteThenRead 43 0 0xB9, SpiWrite 0xAB 0xBB 0, Msleep 500,
      SpiWriteThenRead 43 0 0xB9, SpiWrite 0xAB 0xBD 0, Msleep 5,
      SpiWriteThenRead 43 0 0xB9, SpiWrite 0xAB 0xB9 0,
      RegisterController radio_a, RegisterController radio_b] \<and>
   rmw_run probe_rmw_steps
     (emitted (fresh 0) (snd (sx1301_probe all_ok_env (version_bus 0xB9) (fresh 0)))) = Some [] \<and>
   fst (sx1301_probe all_ok_env (version_bus 0xB9) (fresh 0)) = 0 \<and>
   rmw_run probe_rmw_steps
     (emitted (fresh 2) (snd (sx1301_probe all_ok_env (version_bus 0xB9) (fresh 2)))) = Some [] \<and>
   rmw_run probe_rmw_steps
     (emitted (fresh 0) (snd (sx1301_probe all_ok_env (stub_bus [17] [] 103) (fresh 0)))) =
     Some (drop 1 probe_rmw_steps)"
  using probe_rmw_preserves_other_bits [of "fresh 0" all_ok_env "version_bus 0xB9"]
        probe_rmw_preserves_other_bits [of "fresh 2" all_ok_env "version_bus 0xB9"]
        probe_rmw_preserves_other_bits [of "fresh 0" all_ok_env "stub_bus [17] [] 103"]
  by (simp add: probe_eval)

text \<open>
  C5. When the reset line was obtained and the version register (address 1) is read
  successfully with a value other than 103, probe returns \<open>-ENXIO\<close> (\<open>-6\<close>), a
  code the driver chooses itself, and logs "unexpected version"; the events of the
  run are the reset pulse, \<open>spi_setup\<close> and the version read, and nothing after it:
  no further read or write, no sleep. A failed version read, in contrast, returns the
  transport's own code \<open>e\<close> and logs "version read failed".
\<close>

theorem probe_version_mismatch:
  assumes "\<not> IS_ERR (devm_gpiod_get_optional env)"
    and "spi_write_then_read bus
           (trace s @ [GpiodSetValue 1, Msleep 100, GpiodSetValue 0, Msleep 100, SpiSetup]) 1 = (0, v)"
    and "v \<noteq> 103"
  shows "fst (sx1301_probe env bus s) = - ENXIO \<and> - ENXIO = - 6 \<and>
         emitted s (snd (sx1301_probe env bus s)) =
           [GpiodSetValue 1, Msleep 100, GpiodSetValue 0, Msleep 100, SpiSetup,
            SpiWriteThenRead 1 0 v] \<and>
         klog (snd (sx1301_probe env bus s)) = klog s @ [(Err, ''unexpected version: %u'', [uint v])] \<and>
         (\<forall>bus' e v'. e \<noteq> 0 \<longrightarrow>
            spi_write_then_read bus'
              (trace s @ [GpiodSetValue 1, Msleep 100, GpiodSetValue 0, Msleep 100, SpiSetup]) 1 = (e, v') \<longrightarrow>
            fst (sx1301_probe env bus' s) = e \<and>
            klog (snd (sx1301_probe env bus' s)) = klog s @ [(Err, ''version read failed'', [])])"
  using assms
  by (simp add: sx1301_probe_def read_unfold REG_VERSION_def ENXIO_def emitted_def Let_def)

theorem probe_version_mismatch_witness:
  "fst (sx1301_probe all_ok_env (stub_bus [] [] 0x42) (fresh 0)) = - 6 \<and>
   emitted (fresh 0) (snd (sx1301_probe all_ok_env (stub_bus [] [] 0x42) (fresh 0))) =
     [GpiodSetValue 1, Msleep 100, GpiodSetValue 0, Msleep 100, SpiSetup,
      SpiWriteThenRead 1 0 0x42] \<and>
   klog (snd (sx1301_probe all_ok_env (stub_bus [] [] 0x42) (fresh 0))) =
     [(Err, ''unexpected version: %u'', [0x42])] \<and>
   fst (sx1301_probe all_ok_env (stub_bus [1] [] 0x42) (fresh 0)) = - 5"
  using probe_version_mismatch [of all_ok_env "stub_bus [] [] 0x42" "fresh 0" "0x42"]
  by (simp add: all_ok_env_def stub_bus_def fresh_def IS_ERR_def ENXIO_def)

text \<open>
  C4. The claim is what the code sets out to do and misses. Probe stores the sentinel
  \<open>0xff\<close> before the reset (line 253), but into \<open>cur_page\<close> of the private area,
  and \<open>sx1301_soft_reset\<close> stores nothing; the byte that \<open>sx1301_page_switch\<close>
  compares is the one in the \<open>net_device\<close> (lines 73 and 255) and keeps whatever it
  held. Two runs on a device that answers the version register with 103:
  \<^item> the byte holds 2 and nothing fails: probe returns 0, the private area holds
    \<open>0xff\<close>, and the run has no page-select write at all: the switch to page 2 after
    the reset found 2 in the byte;
  \<^item> the byte holds 0 and the read of register 16, the first transfer after the
    reset, fails: probe stops there with the byte still 0, not the sentinel, and a
    switch to page 0 from that state issues no write.
\<close>

theorem probe_sentinel_misses_page_cache:
  "fst (sx1301_probe all_ok_env (version_bus 0xB9) (fresh 2)) = 0 \<and>
   netdev_priv_cur_page (snd (sx1301_probe all_ok_env (version_bus 0xB9) (fresh 2))) = 0xff \<and>
   cur_page (snd (sx1301_probe all_ok_env (version_bus 0xB9) (fresh 2))) = 2 \<and>
   emitted (fresh 2) (snd (sx1301_probe all_ok_env (version_bus 0xB9) (fresh 2))) =
     [GpiodSetValue 1, Msleep 100, GpiodSetValue 0, Msleep 100, SpiSetup,
      SpiWriteThenRead 1 0 103, SpiWrite 0x80 0 0, SpiWrite 0x80 0x80 0,
      SpiWriteThenRead 16 0 0xB9, SpiWrite 0x90 0xB1 0,
      SpiWriteThenRead 17 0 0xB9, SpiWrite 0x91 0xB8 0,
      SpiWriteThenRead 43 0 0xB9, SpiWrite 0xAB 0xBB 0, Msleep 500,
      SpiWriteThenRead 43 0 0xB9, SpiWrite 0xAB 0xBD 0, Msleep 5,
      SpiWriteThenRead 43 0 0xB9, SpiWrite 0xAB 0xB9 0,
      RegisterController radio_a, RegisterController radio_b] \<and>
   fst (sx1301_probe all_ok_env (stub_bus [16] [] 103) (fresh 0)) = - 5 \<and>
   emitted (fresh 0) (snd (sx1301_probe all_ok_env (stub_bus [16] [] 103) (fresh 0))) =
     [GpiodSetValue 1, Msleep 100, GpiodSetValue 0, Msleep 100, SpiSetup,
      SpiWriteThenRead 1 0 103, SpiWrite 0x80 0 0, SpiWrite 0x80 0x80 0,
      SpiWriteThenRead 16 (- 5) 0] \<and>
   netdev_priv_cur_page (snd (sx1301_probe all_ok_env (stub_bus [16] [] 103) (fresh 0))) = 0xff \<and>
   cur_page (snd (sx1301_probe all_ok_env (stub_bus [16] [] 103) (fresh 0))) = 0 \<and>
   emitted (snd (sx1301_probe all_ok_env (stub_bus [16] [] 103) (fresh 0)))
     (snd (sx1301_page_switch (stub_bus [16] [] 103) 0
        (snd (sx1301_probe all_ok_env (stub_bus [16] [] 103) (fresh 0))))) = []"
  by (simp add: probe_eval)

end
